theory Spec2Isabelle
  imports Main "HOL-Library.AList"
begin

section \<open>Data model of the process manager\<close>

text \<open>
  The supervisor of the repository is the class \<open>ProcessManager\<close>
  (core/process-manager.ts). Its interfaces \<open>PluginProcessConfig\<close> and
  \<open>PluginProcess\<close> become records, the string unions become datatypes, an optional
  field (\<open>f?: T\<close>) or a nullable one (\<open>T | null\<close>) becomes an \<open>option\<close>.
  Counters are JavaScript numbers that only ever hold small non-negative integers here
  (\<open>restartCount\<close> starts at 0 and moves by \<open>++\<close>), so they are \<open>nat\<close>.
\<close>

datatype RestartPolicy = Always | OnFailure | Never

datatype Status = Starting | Running | Stopping | Stopped | Failed

record PluginProcessConfig =
  name :: string
  path :: string
  maxMemory :: "string option"
  timeout :: "nat option"
  restartPolicy :: "RestartPolicy option"
  maxRestarts :: "nat option"
  dependencies :: "string list option"

text \<open>
  The three capability kinds of the MCP SDK. Only the fields the manager reads or
  rewrites are kept apart; the schema and the prompt's argument list are opaque.
\<close>

record Tool =
  tool_name :: string
  tool_description :: "string option"
  inputSchema :: string

record Resource =
  uri :: string
  resource_name :: string
  resource_description :: "string option"
  mimeType :: "string option"

record Prompt =
  prompt_name :: string
  prompt_description :: "string option"
  arguments :: "string option"

text \<open>
  \<open>ChildProcess\<close> is the handle \<open>spawn\<close> returns: its pid and Node's \<open>killed\<close>
  flag. \<open>StdioClientTransport\<close> is built from a command line; \<open>launched\<close> is the
  child it starts for itself once the client connects through it. \<open>Client\<close> holds the
  pid its requests are written to once connected.
\<close>

record ChildProcess =
  pid :: nat
  killed :: bool

record StdioClientTransport =
  command :: string
  args :: "string list"
  launched :: "nat option"

record Client =
  clientInfo :: string
  connectedTo :: "nat option"

record PluginProcess =
  config :: PluginProcessConfig
  process :: "ChildProcess option"
  client :: "Client option"
  transport :: "StdioClientTransport option"
  status :: Status
  restartCount :: nat
  lastRestart :: "nat option"
  tools :: "Tool list"
  resources :: "Resource list"
  prompts :: "Prompt list"

text \<open>
  \<open>plugins\<close> is a JavaScript \<open>Map\<close>: iteration follows insertion order, so it is an
  association list; \<open>Map.set\<close> is \<open>AList.update\<close> (replace in place, else append)
  and \<open>Map.get\<close> is \<open>map_of\<close>.
\<close>

record ProcessManager =
  plugins :: "(string \<times> PluginProcess) list"
  mgr_maxRestarts :: nat
  mgr_restartDelay :: nat
  healthCheckInterval :: nat

section \<open>What the manager does to the outside\<close>

text \<open>
  Every call the manager makes on the operating system, on a worker's pipe, on the timer
  queue or on its own event emitter is one entry of a trace, in program order.
\<close>

datatype Signal = SIGTERM | SIGKILL

datatype Request =
    Initialize
  | ListTools
  | ListResources
  | ListPrompts
  | CallTool string string

datatype TimerAction = Respawn string | ForceKill string

datatype Event =
    PluginStarted string
  | PluginStopped string
  | PluginFailed string string

datatype Effect =
    OsSpawn nat string "string list"
  | Monitor nat
  | TransportStart nat string "string list"
  | Rpc nat Request
  | ClientClose "nat option"
  | Kill nat Signal
  | Sleep nat
  | SetTimer nat TimerAction
  | Emit Event

text \<open>
  What the outside answers. A promise either resolves with a value or rejects with a
  message. A list reply's field may be missing (\<open>toolsResult.tools || []\<close>), hence the
  inner \<open>option\<close>. \<open>nextPid\<close> is the pid the operating system hands to the next child;
  \<open>now\<close> is the clock read by \<open>new Date()\<close>.
\<close>

datatype 'a Settled = Resolves 'a | Rejects string

datatype ConnectOutcome = Connected | LaunchFailed string | HandshakeFailed string

record Host =
  dirname :: string
  nextPid :: nat
  now :: nat
  stdioCreated :: bool
  connectReply :: ConnectOutcome
  listToolsReply :: "Tool list option Settled"
  listResourcesReply :: "Resource list option Settled"
  listPromptsReply :: "Prompt list option Settled"
  callToolReply :: "string \<Rightarrow> string \<Rightarrow> string Settled"

datatype ManagerError =
    AlreadyManaged string
  | NotManaged string
  | PluginNotFound string
  | PluginNotRunning string
  | StdioStreams string
  | Thrown string

text \<open>The message of each \<open>Error\<close> the manager throws.\<close>

definition errorMessage :: "ManagerError \<Rightarrow> string" where
  "errorMessage e =
     (case e of
        AlreadyManaged n \<Rightarrow> ''Plugin '' @ n @ '' is already managed''
      | NotManaged n \<Rightarrow> ''Plugin '' @ n @ '' is not managed''
      | PluginNotFound n \<Rightarrow> ''Plugin '' @ n @ '' not found''
      | PluginNotRunning n \<Rightarrow> ''Plugin '' @ n @ '' is not running''
      | StdioStreams n \<Rightarrow> ''Failed to create stdio streams for plugin '' @ n
      | Thrown msg \<Rightarrow> msg)"

section \<open>The aggregated catalog\<close>

text \<open>
  \<open>getAllTools\<close> and \<open>getAllPrompts\<close> rewrite the name of every entry of a running
  plugin to \<open>`${pluginName}.${entry.name}`\<close>; \<open>getAllResources\<close> pushes the entries
  of a running plugin as they are.
\<close>

definition qualifiedName :: "string \<Rightarrow> string \<Rightarrow> string" where
  "qualifiedName pluginName localName = pluginName @ ''.'' @ localName"

definition getAllTools :: "ProcessManager \<Rightarrow> Tool list" where
  "getAllTools m =
     concat (map (\<lambda>(pluginName, plugin).
        if status plugin = Running
        then map (\<lambda>tool. tool\<lparr>tool_name := qualifiedName pluginName (tool_name tool)\<rparr>) (tools plugin)
        else []) (plugins m))"

definition getAllResources :: "ProcessManager \<Rightarrow> Resource list" where
  "getAllResources m =
     concat (map (\<lambda>(pluginName, plugin).
        if status plugin = Running then resources plugin else []) (plugins m))"

definition getAllPrompts :: "ProcessManager \<Rightarrow> Prompt list" where
  "getAllPrompts m =
     concat (map (\<lambda>(pluginName, plugin).
        if status plugin = Running
        then map (\<lambda>prompt. prompt\<lparr>prompt_name := qualifiedName pluginName (prompt_name prompt)\<rparr>) (prompts plugin)
        else []) (plugins m))"

section \<open>Invocation\<close>

definition executeToolInPlugin ::
  "Host \<Rightarrow> string \<Rightarrow> string \<Rightarrow> string \<Rightarrow> ProcessManager \<Rightarrow> (ManagerError + string) \<times> Effect list" where
  "executeToolInPlugin h pluginName toolName toolArgs m =
     (case map_of (plugins m) pluginName of
        None \<Rightarrow> (Inl (PluginNotFound pluginName), [])
      | Some plugin \<Rightarrow>
          if status plugin = Running then
            (case client plugin of
               None \<Rightarrow> (Inl (PluginNotRunning pluginName), [])
             | Some c \<Rightarrow>
                 (case connectedTo c of
                    None \<Rightarrow> (Inl (Thrown ''Not connected''), [])
                  | Some q \<Rightarrow>
                      (case callToolReply h toolName toolArgs of
                         Resolves r \<Rightarrow> (Inr r, [Rpc q (CallTool toolName toolArgs)])
                       | Rejects e \<Rightarrow> (Inl (Thrown e), [Rpc q (CallTool toolName toolArgs)]))))
          else (Inl (PluginNotRunning pluginName), []))"

section \<open>Failure handling and restart policy\<close>

text \<open>
  \<open>handlePluginFailure\<close>: the record becomes \<open>failed\<close>, the client is closed and
  dropped, the transport and process handles are dropped, and the restart decision is
  taken from the policy and the budget
  \<open>plugin.config.maxRestarts ?? this.maxRestarts\<close>. A restart increments the counter,
  stamps \<open>lastRestart\<close> and queues the respawn with \<open>setTimeout(..., this.restartDelay)\<close>;
  otherwise \<open>pluginFailed\<close> is emitted with the message below.
\<close>

definition restartBudget :: "ProcessManager \<Rightarrow> PluginProcess \<Rightarrow> nat" where
  "restartBudget m plugin =
     (case maxRestarts (config plugin) of Some k \<Rightarrow> k | None \<Rightarrow> mgr_maxRestarts m)"

definition shouldRestart :: "ProcessManager \<Rightarrow> PluginProcess \<Rightarrow> bool" where
  "shouldRestart m plugin =
     (restartPolicy (config plugin) = Some Always \<or>
      (restartPolicy (config plugin) = Some OnFailure \<and>
       restartCount plugin < restartBudget m plugin))"

definition handlePluginFailure ::
  "ProcessManager \<Rightarrow> nat \<Rightarrow> PluginProcess \<Rightarrow> PluginProcess \<times> Effect list" where
  "handlePluginFailure m clock plugin =
     (let p1 = plugin\<lparr>status := Failed\<rparr>;
          closing = (case client p1 of Some c \<Rightarrow> [ClientClose (connectedTo c)] | None \<Rightarrow> []);
          p2 = p1\<lparr>client := None, transport := None, process := None\<rparr>
      in if shouldRestart m p2
         then (p2\<lparr>restartCount := restartCount p2 + 1, lastRestart := Some clock\<rparr>,
               closing @ [SetTimer (mgr_restartDelay m) (Respawn (name (config p2)))])
         else (p2, closing @ [Emit (PluginFailed (name (config p2)) ''Max restarts exceeded'')]))"

section \<open>Spawning a worker\<close>

text \<open>
  Node's \<open>path.join\<close> on a POSIX host: the non-empty arguments are joined with a slash
  and the result is normalised. Normalising splits at slashes, drops empty segments and
  \<open>.\<close>, lets \<open>..\<close> cancel the segment before it (above the start of a relative path it
  is kept, at the root of an absolute one it is dropped), and keeps a leading and a
  trailing slash; an empty result is \<open>.\<close>.
\<close>

fun pathSegments :: "string \<Rightarrow> string \<Rightarrow> string list" where
  "pathSegments [] cur = (if cur = [] then [] else [cur])"
| "pathSegments (c # cs) cur =
     (if c = CHR ''/''
      then (if cur = [] then pathSegments cs [] else cur # pathSegments cs [])
      else pathSegments cs (cur @ [c]))"

fun normalizeSegments :: "bool \<Rightarrow> string list \<Rightarrow> string list \<Rightarrow> string list" where
  "normalizeSegments allowAboveRoot [] res = rev res"
| "normalizeSegments allowAboveRoot (seg # segs) res =
     (if seg = ''.'' then normalizeSegments allowAboveRoot segs res
      else if seg = ''..'' then
        (case res of
           [] \<Rightarrow>
             if allowAboveRoot then normalizeSegments allowAboveRoot segs [''..'']
             else normalizeSegments allowAboveRoot segs []
         | lastSeg # earlier \<Rightarrow>
             if lastSeg = ''..'' then
               (if allowAboveRoot then normalizeSegments allowAboveRoot segs (''..'' # res)
                else normalizeSegments allowAboveRoot segs res)
             else normalizeSegments allowAboveRoot segs earlier)
      else normalizeSegments allowAboveRoot segs (seg # res))"

fun joinSegments :: "string list \<Rightarrow> string" where
  "joinSegments [] = []"
| "joinSegments [seg] = seg"
| "joinSegments (seg # segs) = seg @ ''/'' @ joinSegments segs"

definition pathNormalize :: "string \<Rightarrow> string" where
  "pathNormalize p =
     (case p of
        [] \<Rightarrow> ''.''
      | c # cs \<Rightarrow>
          (let isAbsolute = (c = CHR ''/'');
               trailingSeparator = (last p = CHR ''/'');
               body = joinSegments (normalizeSegments (\<not> isAbsolute) (pathSegments p []) [])
           in if body = [] then
                (if isAbsolute then ''/'' else if trailingSeparator then ''./'' else ''.'')
              else (if isAbsolute then ''/'' else []) @ body @
                   (if trailingSeparator then ''/'' else [])))"

definition pathJoin :: "string \<Rightarrow> string \<Rightarrow> string" where
  "pathJoin a b =
     (case filter (\<lambda>arg. arg \<noteq> []) [a, b] of
        [] \<Rightarrow> ''.''
      | parts \<Rightarrow> pathNormalize (joinSegments parts))"

text \<open>
  \<open>loadPluginCapabilities\<close> asks for the three lists in turn and stores each as soon as
  it arrives; a rejected request is rethrown, with the lists stored so far kept.
  Nothing inspects the entries of a list.
\<close>

definition loadPluginCapabilities ::
  "Host \<Rightarrow> PluginProcess \<Rightarrow> string option \<times> PluginProcess \<times> Effect list" where
  "loadPluginCapabilities h plugin =
     (case client plugin of
        None \<Rightarrow> (None, plugin, [])
      | Some c \<Rightarrow>
          (case connectedTo c of
             None \<Rightarrow> (Some ''Not connected'', plugin, [])
           | Some q \<Rightarrow>
               (case listToolsReply h of
                  Rejects e \<Rightarrow> (Some e, plugin, [Rpc q ListTools])
                | Resolves ts \<Rightarrow>
                    (let p1 = plugin\<lparr>tools := (case ts of Some l \<Rightarrow> l | None \<Rightarrow> [])\<rparr> in
                     case listResourcesReply h of
                       Rejects e \<Rightarrow> (Some e, p1, [Rpc q ListTools, Rpc q ListResources])
                     | Resolves rs \<Rightarrow>
                         (let p2 = p1\<lparr>resources := (case rs of Some l \<Rightarrow> l | None \<Rightarrow> [])\<rparr> in
                          case listPromptsReply h of
                            Rejects e \<Rightarrow>
                              (Some e, p2, [Rpc q ListTools, Rpc q ListResources, Rpc q ListPrompts])
                          | Resolves ps \<Rightarrow>
                              (None, p2\<lparr>prompts := (case ps of Some l \<Rightarrow> l | None \<Rightarrow> [])\<rparr>,
                               [Rpc q ListTools, Rpc q ListResources, Rpc q ListPrompts]))))))"

text \<open>
  \<open>spawnPluginProcess\<close>. The child created by \<open>spawn("node", [wrapperPath, pluginPath])\<close>
  takes the host's next pid and is stored in \<open>plugin.process\<close>; the \<open>error\<close> and
  \<open>exit\<close> listeners are put on that handle. The transport is built from the same
  command line, not from the child's streams: connecting the client through it makes
  the SDK's \<open>StdioClientTransport.start\<close> launch that command line itself, which is the
  host's following pid, and the handshake and every later request go to that child.
  The function throws only when the spawned child has no stdin or stdout; a failed
  connect or capability load is caught and handed to \<open>handlePluginFailure\<close>. The
  listeners of the manager's own events are taken to return normally.
\<close>

definition spawnPluginProcess ::
  "ProcessManager \<Rightarrow> Host \<Rightarrow> PluginProcess \<Rightarrow> ManagerError option \<times> PluginProcess \<times> Effect list" where
  "spawnPluginProcess m h plugin =
     (let wrapperPath = pathJoin (dirname h) ''plugin-wrapper.js'';
          pluginPath = pathJoin (path (config plugin)) ''index.ts'';
          d = nextPid h;
          p1 = plugin\<lparr>process := Some \<lparr>pid = d, killed = False\<rparr>\<rparr>;
          e1 = [OsSpawn d ''node'' [wrapperPath, pluginPath]]
      in if stdioCreated h then
           (let p2 = p1\<lparr>transport :=
                        Some \<lparr>command = ''node'', args = [wrapperPath, pluginPath], launched = None\<rparr>,
                      client :=
                        Some \<lparr>clientInfo = ''plugin-manager-'' @ name (config plugin),
                              connectedTo = None\<rparr>\<rparr>;
                e2 = e1 @ [Monitor d]
            in case connectReply h of
                 Connected \<Rightarrow>
                   (let q = d + 1;
                        p3 = p2\<lparr>transport :=
                                 Some \<lparr>command = ''node'', args = [wrapperPath, pluginPath],
                                       launched = Some q\<rparr>,
                               client :=
                                 Some \<lparr>clientInfo = ''plugin-manager-'' @ name (config plugin),
                                       connectedTo = Some q\<rparr>\<rparr>;
                        e3 = e2 @ [TransportStart q ''node'' [wrapperPath, pluginPath], Rpc q Initialize]
                    in case loadPluginCapabilities h p3 of
                         (None, p4, e4) \<Rightarrow>
                           (None, p4\<lparr>status := Running\<rparr>,
                            e3 @ e4 @ [Emit (PluginStarted (name (config plugin)))])
                       | (Some err, p4, e4) \<Rightarrow>
                           (let (p5, e5) = handlePluginFailure m (now h) (p4\<lparr>status := Failed\<rparr>)
                            in (None, p5, e3 @ e4 @ e5)))
               | LaunchFailed err \<Rightarrow>
                   (let (p5, e5) = handlePluginFailure m (now h) (p2\<lparr>status := Failed\<rparr>)
                    in (None, p5, e2 @ e5))
               | HandshakeFailed err \<Rightarrow>
                   (let q = d + 1;
                        p3 = p2\<lparr>transport :=
                                 Some \<lparr>command = ''node'', args = [wrapperPath, pluginPath],
                                       launched = Some q\<rparr>,
                               client :=
                                 Some \<lparr>clientInfo = ''plugin-manager-'' @ name (config plugin),
                                       connectedTo = Some q\<rparr>\<rparr>;
                        e3 = e2 @ [TransportStart q ''node'' [wrapperPath, pluginPath], Rpc q Initialize];
                        (p5, e5) = handlePluginFailure m (now h) (p3\<lparr>status := Failed\<rparr>)
                    in (None, p5, e3 @ e5)))
         else (Some (StdioStreams (name (config plugin))), p1, e1))"

text \<open>
  \<open>startPlugin\<close> refuses a name that is already a key of the map; otherwise it stores
  a fresh record (\<open>starting\<close>, counter 0, empty lists) and spawns.
\<close>

definition newPlugin :: "PluginProcessConfig \<Rightarrow> PluginProcess" where
  "newPlugin cfg =
     \<lparr>config = cfg, process = None, client = None, transport = None, status = Starting,
      restartCount = 0, lastRestart = None, tools = [], resources = [], prompts = []\<rparr>"

definition startPlugin ::
  "PluginProcessConfig \<Rightarrow> Host \<Rightarrow> ProcessManager \<Rightarrow> ManagerError option \<times> ProcessManager \<times> Effect list" where
  "startPlugin cfg h m =
     (case map_of (plugins m) (name cfg) of
        Some _ \<Rightarrow> (Some (AlreadyManaged (name cfg)), m, [])
      | None \<Rightarrow>
          (let m1 = m\<lparr>plugins := AList.update (name cfg) (newPlugin cfg) (plugins m)\<rparr>;
               (err, p, es) = spawnPluginProcess m1 h (newPlugin cfg)
           in (err, m1\<lparr>plugins := AList.update (name cfg) p (plugins m1)\<rparr>, es)))"

text \<open>
  The listeners of \<open>spawnPluginProcess\<close>. \<open>exit\<close> first writes \<open>stopped\<close> for exit
  code 0 and \<open>failed\<close> for anything else (a signal gives code \<open>null\<close>), then calls
  \<open>handlePluginFailure\<close> in either case; \<open>error\<close> calls it directly. The timer queued
  by a restart calls \<open>spawnPluginProcess\<close> and emits \<open>pluginFailed\<close> when that throws.
\<close>

definition onProcessExit ::
  "ProcessManager \<Rightarrow> nat \<Rightarrow> int option \<Rightarrow> PluginProcess \<Rightarrow> PluginProcess \<times> Effect list" where
  "onProcessExit m clock code plugin =
     handlePluginFailure m clock
       (plugin\<lparr>status := (if code = Some 0 then Stopped else Failed)\<rparr>)"

definition onProcessError ::
  "ProcessManager \<Rightarrow> nat \<Rightarrow> PluginProcess \<Rightarrow> PluginProcess \<times> Effect list" where
  "onProcessError m clock plugin = handlePluginFailure m clock plugin"

definition onRestartTimer ::
  "ProcessManager \<Rightarrow> Host \<Rightarrow> PluginProcess \<Rightarrow> PluginProcess \<times> Effect list" where
  "onRestartTimer m h plugin =
     (case spawnPluginProcess m h plugin of
        (None, p, es) \<Rightarrow> (p, es)
      | (Some err, p, es) \<Rightarrow>
          (p, es @ [Emit (PluginFailed (name (config plugin)) (errorMessage err))]))"

section \<open>Stopping and manual restart\<close>

text \<open>
  The body of \<open>stopPlugin\<close> on the record it found: \<open>stopping\<close>, close the client (the
  field is kept), and, when a process handle is present whose \<open>killed\<close> flag is unset,
  \<open>kill("SIGTERM")\<close> (Node sets \<open>killed\<close> once the signal is sent) and a timer of
  \<open>plugin.config.timeout ?? 30000\<close> milliseconds for the forced kill. The function does
  not wait for either: it writes \<open>stopped\<close> and emits \<open>pluginStopped\<close> at once.
\<close>

definition stopRecord :: "string \<Rightarrow> PluginProcess \<Rightarrow> PluginProcess \<times> Effect list" where
  "stopRecord nm plugin =
     (let p1 = plugin\<lparr>status := Stopping\<rparr>;
          e1 = (case client p1 of Some c \<Rightarrow> [ClientClose (connectedTo c)] | None \<Rightarrow> []);
          (p2, e2) =
            (case process p1 of
               None \<Rightarrow> (p1, [])
             | Some cp \<Rightarrow>
                 if killed cp then (p1, [])
                 else (p1\<lparr>process := Some (cp\<lparr>killed := True\<rparr>)\<rparr>,
                       [Kill (pid cp) SIGTERM,
                        SetTimer (case timeout (config p1) of Some t \<Rightarrow> t | None \<Rightarrow> 30000)
                          (ForceKill nm)]))
      in (p2\<lparr>status := Stopped\<rparr>, e1 @ e2 @ [Emit (PluginStopped nm)]))"

definition stopPlugin ::
  "string \<Rightarrow> ProcessManager \<Rightarrow> ManagerError option \<times> ProcessManager \<times> Effect list" where
  "stopPlugin nm m =
     (case map_of (plugins m) nm of
        None \<Rightarrow> (Some (NotManaged nm), m, [])
      | Some plugin \<Rightarrow>
          (let (p, es) = stopRecord nm plugin
           in (None, m\<lparr>plugins := AList.update nm p (plugins m)\<rparr>, es)))"

text \<open>The forced-kill timer queued by \<open>stopPlugin\<close>.\<close>

definition onForceKillTimer :: "PluginProcess \<Rightarrow> PluginProcess \<times> Effect list" where
  "onForceKillTimer plugin =
     (case process plugin of
        None \<Rightarrow> (plugin, [])
      | Some cp \<Rightarrow>
          if killed cp then (plugin, [])
          else (plugin\<lparr>process := Some (cp\<lparr>killed := True\<rparr>)\<rparr>, [Kill (pid cp) SIGKILL]))"

text \<open>
  \<open>restartPlugin\<close>: stop, sleep one second, write 0 into \<open>restartCount\<close>, spawn.
\<close>

definition restartPlugin ::
  "string \<Rightarrow> Host \<Rightarrow> ProcessManager \<Rightarrow> ManagerError option \<times> ProcessManager \<times> Effect list" where
  "restartPlugin nm h m =
     (case map_of (plugins m) nm of
        None \<Rightarrow> (Some (NotManaged nm), m, [])
      | Some plugin \<Rightarrow>
          (let (p1, e1) = stopRecord nm plugin;
               p2 = p1\<lparr>restartCount := 0\<rparr>;
               (err, p3, e3) = spawnPluginProcess m h p2
           in (err, m\<lparr>plugins := AList.update nm p3 (plugins m)\<rparr>, e1 @ [Sleep 1000] @ e3)))"


section \<open>Health checks\<close>

text \<open>
  \<open>performHealthChecks\<close> is a \<open>for\<close> loop over the map with an \<open>await\<close> inside: the
  probe of an entry (\<open>listTools\<close>) is sent, and the loop goes on to the next entry
  when that promise has settled. A probe answers or fails after some latency, or never
  settles; the loop's clock advances by the latency, and a probe that never settles
  leaves the loop suspended. A failed probe calls \<open>handlePluginFailure\<close> without
  awaiting it. The result lists the probes sent with the time each was sent at, and
  the time the round ended at, if it did.
\<close>

datatype Probe = Answers nat | Fails nat | Hangs

fun healthLoop ::
  "ProcessManager \<Rightarrow> (string \<Rightarrow> Probe) \<Rightarrow> nat \<Rightarrow> (string \<times> PluginProcess) list \<Rightarrow>
   (string \<times> PluginProcess) list \<times> (string \<times> nat) list \<times> Effect list \<times> nat option" where
  "healthLoop m probe t [] = ([], [], [], Some t)"
| "healthLoop m probe t ((nm, plugin) # rest) =
     (if status plugin = Running \<and> client plugin \<noteq> None then
        (case probe nm of
           Answers d \<Rightarrow>
             (case healthLoop m probe (t + d) rest of
                (ps, sent, es, fin) \<Rightarrow> ((nm, plugin) # ps, (nm, t) # sent, es, fin))
         | Fails d \<Rightarrow>
             (case handlePluginFailure m (t + d) plugin of
                (p, e1) \<Rightarrow>
                  (case healthLoop m probe (t + d) rest of
                     (ps, sent, es, fin) \<Rightarrow> ((nm, p) # ps, (nm, t) # sent, e1 @ es, fin)))
         | Hangs \<Rightarrow> ((nm, plugin) # rest, [(nm, t)], [], None))
      else
        (case healthLoop m probe t rest of
           (ps, sent, es, fin) \<Rightarrow> ((nm, plugin) # ps, sent, es, fin)))"

definition performHealthChecks ::
  "(string \<Rightarrow> Probe) \<Rightarrow> nat \<Rightarrow> ProcessManager \<Rightarrow>
   ProcessManager \<times> (string \<times> nat) list \<times> Effect list \<times> nat option" where
  "performHealthChecks probe t m =
     (case healthLoop m probe t (plugins m) of
        (ps, sent, es, fin) \<Rightarrow> (m\<lparr>plugins := ps\<rparr>, sent, es, fin))"

section \<open>Reading a trace\<close>

text \<open>
  Projections of a trace: the pids of the children launched, of the children the
  listeners were put on, of the children a request was written to and of the children a
  signal was sent to, in order; and the restarts queued.
\<close>

fun launchedPids :: "Effect list \<Rightarrow> nat list" where
  "launchedPids [] = []"
| "launchedPids (OsSpawn d c a # es) = d # launchedPids es"
| "launchedPids (TransportStart q c a # es) = q # launchedPids es"
| "launchedPids (e # es) = launchedPids es"

fun spawnedPids :: "Effect list \<Rightarrow> nat list" where
  "spawnedPids [] = []"
| "spawnedPids (OsSpawn d c a # es) = d # spawnedPids es"
| "spawnedPids (e # es) = spawnedPids es"

fun monitoredPids :: "Effect list \<Rightarrow> nat list" where
  "monitoredPids [] = []"
| "monitoredPids (Monitor d # es) = d # monitoredPids es"
| "monitoredPids (e # es) = monitoredPids es"

fun rpcTargets :: "Effect list \<Rightarrow> nat list" where
  "rpcTargets [] = []"
| "rpcTargets (Rpc q r # es) = q # rpcTargets es"
| "rpcTargets (e # es) = rpcTargets es"

fun signalledPids :: "Effect list \<Rightarrow> nat list" where
  "signalledPids [] = []"
| "signalledPids (Kill d sg # es) = d # signalledPids es"
| "signalledPids (e # es) = signalledPids es"

fun restartsQueued :: "Effect list \<Rightarrow> (nat \<times> string) list" where
  "restartsQueued [] = []"
| "restartsQueued (SetTimer d (Respawn nm) # es) = (d, nm) # restartsQueued es"
| "restartsQueued (e # es) = restartsQueued es"

fun failuresEmitted :: "Effect list \<Rightarrow> (string \<times> string) list" where
  "failuresEmitted [] = []"
| "failuresEmitted (Emit (PluginFailed nm msg) # es) = (nm, msg) # failuresEmitted es"
| "failuresEmitted (e # es) = failuresEmitted es"

section \<open>Runs of consecutive crashes\<close>

text \<open>
  A host on which a spawn gets its streams, the connect succeeds and the three list
  requests resolve: a worker started there reaches \<open>running\<close>.
\<close>

fun resolved :: "'a Settled \<Rightarrow> bool" where
  "resolved (Resolves v) = True"
| "resolved (Rejects e) = False"

definition healthyHost :: "Host \<Rightarrow> bool" where
  "healthyHost h =
     (stdioCreated h \<and> connectReply h = Connected \<and> resolved (listToolsReply h) \<and>
      resolved (listResourcesReply h) \<and> resolved (listPromptsReply h))"

text \<open>
  A crash is the \<open>exit\<close> event of the monitored child with exit code 1. When the handler
  has queued a restart, the timer fires (on the host of that attempt) and the next
  crash hits the respawned worker; when it has not, no child is left to crash and the
  run is over.
\<close>

fun crashes ::
  "ProcessManager \<Rightarrow> (nat \<Rightarrow> Host) \<Rightarrow> nat \<Rightarrow> PluginProcess \<Rightarrow> PluginProcess \<times> Effect list" where
  "crashes m hosts 0 plugin = (plugin, [])"
| "crashes m hosts (Suc n) plugin =
     (case onProcessExit m (now (hosts n)) (Some 1) plugin of
        (p, e1) \<Rightarrow>
          (case restartsQueued e1 of
             [] \<Rightarrow> (p, e1)
           | _ # _ \<Rightarrow>
               (case onRestartTimer m (hosts n) p of
                  (p', e2) \<Rightarrow>
                    (case crashes m hosts n p' of (pf, e3) \<Rightarrow> (pf, e1 @ e2 @ e3)))))"

section \<open>The schedule of a health-check round\<close>

text \<open>
  The entries a round probes, the time a probe takes to settle, and the times at which
  requests are sent when each waits for the one before it.
\<close>

definition probedEntries :: "(string \<times> PluginProcess) list \<Rightarrow> (string \<times> PluginProcess) list" where
  "probedEntries xs = filter (\<lambda>(nm, plugin). status plugin = Running \<and> client plugin \<noteq> None) xs"

fun latency :: "Probe \<Rightarrow> nat" where
  "latency (Answers d) = d"
| "latency (Fails d) = d"
| "latency Hangs = 0"

fun oneAfterAnother :: "nat \<Rightarrow> nat list \<Rightarrow> nat list" where
  "oneAfterAnother t [] = []"
| "oneAfterAnother t (d # ds) = t # oneAfterAnother (t + d) ds"

section \<open>Concrete managers, hosts and records\<close>

text \<open>
  The spec's \<open>echo\<close> descriptor with a restart budget of \<open>k\<close>, a manager built with
  the constructor's defaults, a host on which everything succeeds, and the record of a
  worker that \<open>startPlugin\<close> has brought to \<open>running\<close> there.
\<close>

definition echoConfig :: "RestartPolicy \<Rightarrow> nat \<Rightarrow> PluginProcessConfig" where
  "echoConfig policy k =
     \<lparr>name = ''echo'', path = ''plugins/echo'', maxMemory = Some ''256MB'',
      timeout = Some 30000, restartPolicy = Some policy, maxRestarts = Some k,
      dependencies = Some []\<rparr>"

definition emptyManager :: ProcessManager where
  "emptyManager =
     \<lparr>plugins = [], mgr_maxRestarts = 3, mgr_restartDelay = 1000, healthCheckInterval = 30000\<rparr>"

definition pingTool :: Tool where
  "pingTool = \<lparr>tool_name = ''ping'', tool_description = None, inputSchema = ''{}''\<rparr>"

definition readmeResource :: Resource where
  "readmeResource =
     \<lparr>uri = ''file:///readme'', resource_name = ''readme'', resource_description = None,
      mimeType = None\<rparr>"

definition greetPrompt :: Prompt where
  "greetPrompt = \<lparr>prompt_name = ''greet'', prompt_description = None, arguments = None\<rparr>"

definition goodHost :: "nat \<Rightarrow> Host" where
  "goodHost d =
     \<lparr>dirname = ''dist/core'', nextPid = d, now = 0, stdioCreated = True,
      connectReply = Connected,
      listToolsReply = Resolves (Some [pingTool]),
      listResourcesReply = Resolves (Some [readmeResource]),
      listPromptsReply = Resolves (Some [greetPrompt]),
      callToolReply = (\<lambda>t a. Resolves ''pong'')\<rparr>"

definition runningEcho :: "RestartPolicy \<Rightarrow> nat \<Rightarrow> PluginProcess" where
  "runningEcho policy k =
     \<lparr>config = echoConfig policy k,
      process = Some \<lparr>pid = 100, killed = False\<rparr>,
      client = Some \<lparr>clientInfo = ''plugin-manager-echo'', connectedTo = Some 101\<rparr>,
      transport =
        Some \<lparr>command = ''node'',
              args = [''dist/core/plugin-wrapper.js'', ''plugins/echo/index.ts''],
              launched = Some 101\<rparr>,
      status = Running, restartCount = 0, lastRestart = None,
      tools = [pingTool], resources = [readmeResource], prompts = [greetPrompt]\<rparr>"

text \<open>
  A host whose tool list names \<open>ping\<close> twice; the list a reply carries (empty when the
  field is missing); and the \<open>echo\<close> record right after \<open>stopPlugin\<close> has returned.
\<close>

definition duplicateHost :: Host where
  "duplicateHost = (goodHost 40)\<lparr>listToolsReply := Resolves (Some [pingTool, pingTool])\<rparr>"

definition received :: "'a list option Settled \<Rightarrow> 'a list" where
  "received r = (case r of Resolves (Some l) \<Rightarrow> l | Resolves None \<Rightarrow> [] | Rejects e \<Rightarrow> [])"

definition stoppedEcho :: "RestartPolicy \<Rightarrow> PluginProcess" where
  "stoppedEcho policy = fst (stopRecord ''echo'' (runningEcho policy 3))"

text \<open>
  Two running workers, \<open>slow\<close> registered before \<open>fast\<close>, and three ways their
  probes can behave: both answer after 10 ms; \<open>slow\<close> answers only after 5000 ms; the
  probe of \<open>slow\<close> never settles.
\<close>

definition runningNamed :: "string \<Rightarrow> PluginProcess" where
  "runningNamed nm = (runningEcho OnFailure 2)\<lparr>config := (echoConfig OnFailure 2)\<lparr>name := nm\<rparr>\<rparr>"

definition twoWorkers :: ProcessManager where
  "twoWorkers =
     emptyManager\<lparr>plugins := [(''slow'', runningNamed ''slow''), (''fast'', runningNamed ''fast'')]\<rparr>"

definition promptProbes :: "string \<Rightarrow> Probe" where
  "promptProbes nm = Answers 10"

definition slowProbes :: "string \<Rightarrow> Probe" where
  "slowProbes nm = (if nm = ''slow'' then Answers 5000 else Answers 10)"

definition stuckProbes :: "string \<Rightarrow> Probe" where
  "stuckProbes nm = (if nm = ''slow'' then Hangs else Answers 10)"

definition failingProbes :: "string \<Rightarrow> Probe" where
  "failingProbes nm = (if nm = ''slow'' then Fails 10 else Answers 10)"




text \<open>A host whose three lists each name their entry twice.\<close>

definition duplicatesEverywhereHost :: Host where
  "duplicatesEverywhereHost =
     (goodHost 40)\<lparr>listToolsReply := Resolves (Some [pingTool, pingTool]),
                     listResourcesReply := Resolves (Some [readmeResource, readmeResource]),
                     listPromptsReply := Resolves (Some [greetPrompt, greetPrompt])\<rparr>"

text \<open>A manager holding a failed \<open>echo\<close> before a running \<open>fast\<close>.\<close>

definition mixedManager :: ProcessManager where
  "mixedManager =
     emptyManager\<lparr>plugins :=
       [(''echo'', (runningEcho OnFailure 2)\<lparr>status := Failed\<rparr>), (''fast'', runningNamed ''fast'')]\<rparr>"

section \<open>Lemmas on traces and on the single operations\<close>

lemma launchedPids_append: "launchedPids (xs @ ys) = launchedPids xs @ launchedPids ys"
  by (induction xs rule: launchedPids.induct) simp_all

lemma spawnedPids_append: "spawnedPids (xs @ ys) = spawnedPids xs @ spawnedPids ys"
  by (induction xs rule: spawnedPids.induct) simp_all

lemma monitoredPids_append: "monitoredPids (xs @ ys) = monitoredPids xs @ monitoredPids ys"
  by (induction xs rule: monitoredPids.induct) simp_all

lemma rpcTargets_append: "rpcTargets (xs @ ys) = rpcTargets xs @ rpcTargets ys"
  by (induction xs rule: rpcTargets.induct) simp_all

lemma signalledPids_append: "signalledPids (xs @ ys) = signalledPids xs @ signalledPids ys"
  by (induction xs rule: signalledPids.induct) simp_all

lemma restartsQueued_append: "restartsQueued (xs @ ys) = restartsQueued xs @ restartsQueued ys"
  by (induction xs rule: restartsQueued.induct) simp_all

lemma failuresEmitted_append: "failuresEmitted (xs @ ys) = failuresEmitted xs @ failuresEmitted ys"
  by (induction xs rule: failuresEmitted.induct) simp_all

lemmas trace_append = launchedPids_append spawnedPids_append monitoredPids_append
  rpcTargets_append signalledPids_append restartsQueued_append failuresEmitted_append

lemma failure_restarts:
  assumes "shouldRestart m p" and "handlePluginFailure m clock p = (p', es)"
  shows "status p' = Failed" "restartCount p' = restartCount p + 1" "config p' = config p"
    "restartsQueued es = [(mgr_restartDelay m, name (config p))]"
    "failuresEmitted es = []" "launchedPids es = []" "rpcTargets es = []" "signalledPids es = []"
    "process p' = None" "client p' = None" "transport p' = None"
    "tools p' = tools p" "resources p' = resources p" "prompts p' = prompts p"
    "lastRestart p' = Some clock" "spawnedPids es = []" "monitoredPids es = []"
  using assms
  by (auto simp: handlePluginFailure_def Let_def shouldRestart_def restartBudget_def trace_append
      split: option.splits)

lemma failure_terminal:
  assumes "\<not> shouldRestart m p" and "handlePluginFailure m clock p = (p', es)"
  shows "status p' = Failed" "restartCount p' = restartCount p" "config p' = config p"
    "restartsQueued es = []"
    "failuresEmitted es = [(name (config p), ''Max restarts exceeded'')]"
    "launchedPids es = []" "rpcTargets es = []" "signalledPids es = []"
    "process p' = None" "client p' = None" "transport p' = None"
    "tools p' = tools p" "resources p' = resources p" "prompts p' = prompts p"
    "lastRestart p' = lastRestart p" "spawnedPids es = []" "monitoredPids es = []"
  using assms
  by (auto simp: handlePluginFailure_def Let_def shouldRestart_def restartBudget_def trace_append
      split: option.splits)

lemma failure_ignores_status:
  "handlePluginFailure m clock (p\<lparr>status := s\<rparr>) = handlePluginFailure m clock p"
  by (simp add: handlePluginFailure_def Let_def shouldRestart_def restartBudget_def)

lemma failure_count_mono:
  "handlePluginFailure m clock p = (p', es) \<Longrightarrow>
     restartCount p \<le> restartCount p' \<and> restartCount p' \<le> restartCount p + 1"
  by (auto simp: handlePluginFailure_def Let_def split: if_splits)

lemma concat_running_filter:
  "concat (map (\<lambda>(n, p). if status p = Running then f n p else []) xs) =
   concat (map (\<lambda>(n, p). if status p = Running then f n p else [])
             (filter (\<lambda>(n, p). status p = Running) xs))"
  by (induction xs) auto

lemma resolvedE: "resolved x \<Longrightarrow> \<exists>v. x = Resolves v"
  by (cases x) simp_all

lemma load_resolved:
  assumes "client p = Some c" "connectedTo c = Some q"
    "resolved (listToolsReply h)" "resolved (listResourcesReply h)" "resolved (listPromptsReply h)"
  shows "\<exists>p'. loadPluginCapabilities h p =
            (None, p', [Rpc q ListTools, Rpc q ListResources, Rpc q ListPrompts]) \<and>
          status p' = status p \<and> restartCount p' = restartCount p \<and> config p' = config p \<and>
          process p' = process p \<and> client p' = client p \<and> transport p' = transport p \<and>
          lastRestart p' = lastRestart p"
proof -
  obtain ts rs ps where "listToolsReply h = Resolves ts" "listResourcesReply h = Resolves rs"
    "listPromptsReply h = Resolves ps"
    using resolvedE [OF assms(3)] resolvedE [OF assms(4)] resolvedE [OF assms(5)] by blast
  then show ?thesis
    using assms(1,2) by (simp add: loadPluginCapabilities_def Let_def)
qed

lemma load_frame:
  assumes "loadPluginCapabilities h p = (r, p', es)"
  shows "status p' = status p \<and> restartCount p' = restartCount p \<and> config p' = config p \<and>
          process p' = process p \<and> client p' = client p \<and> transport p' = transport p \<and>
          lastRestart p' = lastRestart p"
  using assms
  by (auto simp: loadPluginCapabilities_def Let_def split: option.splits Settled.splits)

lemma spawn_healthy:
  assumes "healthyHost h" and "spawnPluginProcess m h p = (err, p', es)"
  shows "err = None" "status p' = Running" "restartCount p' = restartCount p"
    "config p' = config p"
    "process p' = Some \<lparr>pid = nextPid h, killed = False\<rparr>"
    "client p' = Some \<lparr>clientInfo = ''plugin-manager-'' @ name (config p),
                       connectedTo = Some (nextPid h + 1)\<rparr>"
    "launchedPids es = [nextPid h, nextPid h + 1]" "spawnedPids es = [nextPid h]"
    "monitoredPids es = [nextPid h]"
    "rpcTargets es = [nextPid h + 1, nextPid h + 1, nextPid h + 1, nextPid h + 1]"
    "signalledPids es = []" "restartsQueued es = []" "failuresEmitted es = []"
proof -
  let ?w = "pathJoin (dirname h) ''plugin-wrapper.js''"
  let ?e = "pathJoin (path (config p)) ''index.ts''"
  let ?p3 = "p\<lparr>process := Some \<lparr>pid = nextPid h, killed = False\<rparr>,
                transport := Some \<lparr>command = ''node'', args = [?w, ?e], launched = None\<rparr>,
                client := Some \<lparr>clientInfo = ''plugin-manager-'' @ name (config p), connectedTo = None\<rparr>,
                transport := Some \<lparr>command = ''node'', args = [?w, ?e], launched = Some (nextPid h + 1)\<rparr>,
                client := Some \<lparr>clientInfo = ''plugin-manager-'' @ name (config p),
                                connectedTo = Some (nextPid h + 1)\<rparr>\<rparr>"
  from assms(1) have h: "stdioCreated h" "connectReply h = Connected"
    "resolved (listToolsReply h)" "resolved (listResourcesReply h)" "resolved (listPromptsReply h)"
    by (simp_all add: healthyHost_def)
  obtain p4 where l: "loadPluginCapabilities h ?p3 =
      (None, p4, [Rpc (nextPid h + 1) ListTools, Rpc (nextPid h + 1) ListResources,
                  Rpc (nextPid h + 1) ListPrompts])"
    and f: "status p4 = status ?p3" "restartCount p4 = restartCount ?p3" "config p4 = config ?p3"
      "process p4 = process ?p3" "client p4 = client ?p3"
    using load_resolved [of ?p3 _ "nextPid h + 1" h] h(3-5) by auto
  have "spawnPluginProcess m h p = (None, p4\<lparr>status := Running\<rparr>,
     [OsSpawn (nextPid h) ''node'' [?w, ?e], Monitor (nextPid h),
      TransportStart (nextPid h + 1) ''node'' [?w, ?e], Rpc (nextPid h + 1) Initialize,
      Rpc (nextPid h + 1) ListTools, Rpc (nextPid h + 1) ListResources,
      Rpc (nextPid h + 1) ListPrompts, Emit (PluginStarted (name (config p)))])"
    using h(1,2) l by (simp add: spawnPluginProcess_def Let_def)
  with assms(2) have "err = None" "p' = p4\<lparr>status := Running\<rparr>"
    "es = [OsSpawn (nextPid h) ''node'' [?w, ?e], Monitor (nextPid h),
      TransportStart (nextPid h + 1) ''node'' [?w, ?e], Rpc (nextPid h + 1) Initialize,
      Rpc (nextPid h + 1) ListTools, Rpc (nextPid h + 1) ListResources,
      Rpc (nextPid h + 1) ListPrompts, Emit (PluginStarted (name (config p)))]"
    by simp_all
  then show "err = None" "status p' = Running" "restartCount p' = restartCount p"
    "config p' = config p"
    "process p' = Some \<lparr>pid = nextPid h, killed = False\<rparr>"
    "client p' = Some \<lparr>clientInfo = ''plugin-manager-'' @ name (config p),
                       connectedTo = Some (nextPid h + 1)\<rparr>"
    "launchedPids es = [nextPid h, nextPid h + 1]" "spawnedPids es = [nextPid h]"
    "monitoredPids es = [nextPid h]"
    "rpcTargets es = [nextPid h + 1, nextPid h + 1, nextPid h + 1, nextPid h + 1]"
    "signalledPids es = []" "restartsQueued es = []" "failuresEmitted es = []"
    using f by simp_all
qed

lemma spawn_count_mono:
  assumes "spawnPluginProcess m h p = (err, p', es)"
  shows "restartCount p \<le> restartCount p' \<and> restartCount p' \<le> restartCount p + 1"
proof -
  have hf: "\<And>x p5 e5. handlePluginFailure m (now h) x = (p5, e5) \<Longrightarrow> restartCount x = restartCount p \<Longrightarrow>
     restartCount p \<le> restartCount p5 \<and> restartCount p5 \<le> restartCount p + 1"
    using failure_count_mono by metis
  show ?thesis
    using assms
    apply (simp add: spawnPluginProcess_def Let_def split: if_splits ConnectOutcome.splits prod.splits option.splits)
    apply (auto dest!: hf load_frame)
    done
qed

lemma restart_timer_healthy:
  assumes "healthyHost h" and "onRestartTimer m h p = (p', es)"
  shows "status p' = Running" "restartCount p' = restartCount p" "config p' = config p"
    "restartsQueued es = []" "failuresEmitted es = []" "spawnedPids es = [nextPid h]"
proof -
  obtain err p1 e1 where s: "spawnPluginProcess m h p = (err, p1, e1)"
    by (cases "spawnPluginProcess m h p") auto
  note sh = spawn_healthy [OF assms(1) s]
  from assms(2) s sh(1) have "p' = p1" "es = e1"
    by (simp_all add: onRestartTimer_def)
  with sh show "status p' = Running" "restartCount p' = restartCount p" "config p' = config p"
    "restartsQueued es = []" "failuresEmitted es = []" "spawnedPids es = [nextPid h]"
    by simp_all
qed

lemma shouldRestart_on_failure:
  "restartPolicy (config p) = Some OnFailure \<Longrightarrow> maxRestarts (config p) = Some k \<Longrightarrow>
   shouldRestart m p = (restartCount p < k)"
  by (simp add: shouldRestart_def restartBudget_def)

lemma crashes_within_budget:
  assumes "restartPolicy (config p) = Some OnFailure" "maxRestarts (config p) = Some k"
    "restartCount p + n = k" "\<And>i. healthyHost (hosts i)"
  shows "case crashes m hosts (Suc n) p of
           (pf, es) \<Rightarrow> status pf = Failed \<and> restartCount pf = k \<and> config pf = config p \<and>
             length (restartsQueued es) = n \<and> length (spawnedPids es) = n \<and>
             failuresEmitted es = [(name (config p), ''Max restarts exceeded'')]"
  using assms
proof (induction n arbitrary: p)
  case 0
  then have no: "\<not> shouldRestart m p"
    by (simp add: shouldRestart_on_failure)
  obtain p1 e1 where x: "onProcessExit m (now (hosts 0)) (Some 1) p = (p1, e1)"
    by (cases "onProcessExit m (now (hosts 0)) (Some 1) p") auto
  then have "handlePluginFailure m (now (hosts 0)) p = (p1, e1)"
    by (simp add: onProcessExit_def failure_ignores_status)
  note t = failure_terminal [OF no this]
  from x t "0.prems"(3) show ?case by simp
next
  case (Suc n)
  then have yes: "shouldRestart m p"
    by (simp add: shouldRestart_on_failure)
  obtain p1 e1 where x: "onProcessExit m (now (hosts (Suc n))) (Some 1) p = (p1, e1)"
    by (cases "onProcessExit m (now (hosts (Suc n))) (Some 1) p") auto
  then have "handlePluginFailure m (now (hosts (Suc n))) p = (p1, e1)"
    by (simp add: onProcessExit_def failure_ignores_status)
  note r = failure_restarts [OF yes this]
  obtain p2 e2 where y: "onRestartTimer m (hosts (Suc n)) p1 = (p2, e2)"
    by (cases "onRestartTimer m (hosts (Suc n)) p1") auto
  note s = restart_timer_healthy [OF Suc.prems(4) y]
  have ih: "case crashes m hosts (Suc n) p2 of
           (pf, es) \<Rightarrow> status pf = Failed \<and> restartCount pf = k \<and> config pf = config p2 \<and>
             length (restartsQueued es) = n \<and> length (spawnedPids es) = n \<and>
             failuresEmitted es = [(name (config p2), ''Max restarts exceeded'')]"
    using Suc.prems r s by (intro Suc.IH) simp_all
  obtain pf e3 where z: "crashes m hosts (Suc n) p2 = (pf, e3)"
    by (cases "crashes m hosts (Suc n) p2") auto
  have "crashes m hosts (Suc (Suc n)) p = (pf, e1 @ e2 @ e3)"
    using x y z r(4) by (simp del: crashes.simps(2) add: crashes.simps(2) [of m hosts "Suc n" p])
  with ih z r s show ?case
    by (simp del: crashes.simps add: trace_append)
qed

lemma catalog_skips_not_running:
  assumes "status p \<noteq> Running"
  shows "getAllTools (m\<lparr>plugins := before @ (nm, p) # after\<rparr>) =
           getAllTools (m\<lparr>plugins := before @ after\<rparr>)"
    "getAllResources (m\<lparr>plugins := before @ (nm, p) # after\<rparr>) =
           getAllResources (m\<lparr>plugins := before @ after\<rparr>)"
    "getAllPrompts (m\<lparr>plugins := before @ (nm, p) # after\<rparr>) =
           getAllPrompts (m\<lparr>plugins := before @ after\<rparr>)"
  using assms by (simp_all add: getAllTools_def getAllResources_def getAllPrompts_def)

lemma stop_frame:
  "stopRecord nm p = (p', es) \<Longrightarrow>
     restartCount p' = restartCount p \<and> config p' = config p \<and> status p' = Stopped \<and>
     client p' = client p \<and> transport p' = transport p"
  by (auto simp: stopRecord_def Let_def split: option.splits if_splits)

lemma spawn_running_keeps_count:
  assumes "spawnPluginProcess m h p = (err, p', es)" and "status p' = Running"
    and "status p \<noteq> Running"
  shows "restartCount p' = restartCount p"
proof -
  have hf: "\<And>x p5 e5. handlePluginFailure m (now h) x = (p5, e5) \<Longrightarrow> status p5 = Failed"
    by (auto simp: handlePluginFailure_def Let_def split: if_splits)
  show ?thesis
    using assms
    apply (simp add: spawnPluginProcess_def Let_def split: if_splits ConnectOutcome.splits prod.splits option.splits)
       apply (auto dest!: hf load_frame)
    done
qed

lemma restart_resets:
  assumes g: "map_of (plugins m) nm = Some plugin"
  shows "\<exists>p0. restartCount p0 = 0 \<and> status p0 = Stopped \<and> config p0 = config plugin \<and>
         (case spawnPluginProcess m h p0 of
            (err, p3, e3) \<Rightarrow>
              (case restartPlugin nm h m of
                 (err', m', es) \<Rightarrow>
                   err' = err \<and> map_of (plugins m') nm = Some p3 \<and> restartCount p3 \<le> 1 \<and>
                   (if status p3 = Running then restartCount p3 = 0 else True)))"
proof -
  obtain p1 e1 where s: "stopRecord nm plugin = (p1, e1)"
    by (cases "stopRecord nm plugin") auto
  note sf = stop_frame [OF s]
  define p0 where "p0 = p1\<lparr>restartCount := 0\<rparr>"
  obtain err p3 e3 where sp: "spawnPluginProcess m h p0 = (err, p3, e3)"
    by (cases "spawnPluginProcess m h p0") auto
  have r: "restartPlugin nm h m =
      (err, m\<lparr>plugins := AList.update nm p3 (plugins m)\<rparr>, e1 @ [Sleep 1000] @ e3)"
    using g s sp by (simp add: restartPlugin_def p0_def)
  have z: "restartCount p0 = 0" "status p0 = Stopped" "config p0 = config plugin"
    using sf by (simp_all add: p0_def)
  have c1: "restartCount p3 \<le> 1"
    using spawn_count_mono [OF sp] z(1) by simp
  have c2: "status p3 = Running \<Longrightarrow> restartCount p3 = 0"
    using spawn_running_keeps_count [OF sp] z by simp
  have mo: "map_of (AList.update nm p3 (plugins m)) nm = Some p3"
    by (simp add: update_conv')
  have k: "case spawnPluginProcess m h p0 of
            (err, p3, e3) \<Rightarrow>
              (case restartPlugin nm h m of
                 (err', m', es) \<Rightarrow>
                   err' = err \<and> map_of (plugins m') nm = Some p3 \<and> restartCount p3 \<le> 1 \<and>
                   (if status p3 = Running then restartCount p3 = 0 else True))"
    unfolding sp r using c1 c2 mo by simp
  show ?thesis
    apply (rule exI [of _ p0])
    apply (intro conjI)
       apply (rule z(1))
      apply (rule z(2))
     apply (rule z(3))
    apply (rule k)
    done
qed

lemma health_loop_counts:
  "healthLoop m probe t xs = (ps, sent, es, fin) \<Longrightarrow>
     list_all2 (\<lambda>x y. fst y = fst x \<and> restartCount (snd x) \<le> restartCount (snd y)) xs ps"
proof (induction xs arbitrary: t ps sent es fin)
  case Nil
  then show ?case by simp
next
  case (Cons x xs)
  obtain nm p where x: "x = (nm, p)" by (cases x)
  have refl: "list_all2 (\<lambda>x y. fst y = fst x \<and> restartCount (snd x) \<le> restartCount (snd y)) xs xs"
    by (simp add: list_all2_same)
  from Cons.prems show ?case
    unfolding x
    by (auto split: if_splits Probe.splits prod.splits
        dest!: Cons.IH failure_count_mono simp: refl)
qed

lemma spawn_healthy_trace:
  assumes "healthyHost h" and "spawnPluginProcess m h p = (err, p', es)"
  shows "es = [OsSpawn (nextPid h) ''node''
                 [pathJoin (dirname h) ''plugin-wrapper.js'', pathJoin (path (config p)) ''index.ts''],
               Monitor (nextPid h),
               TransportStart (nextPid h + 1) ''node''
                 [pathJoin (dirname h) ''plugin-wrapper.js'', pathJoin (path (config p)) ''index.ts''],
               Rpc (nextPid h + 1) Initialize, Rpc (nextPid h + 1) ListTools,
               Rpc (nextPid h + 1) ListResources, Rpc (nextPid h + 1) ListPrompts,
               Emit (PluginStarted (name (config p)))]"
proof -
  obtain ts rs ps where "stdioCreated h" "connectReply h = Connected" "listToolsReply h = Resolves ts"
    "listResourcesReply h = Resolves rs" "listPromptsReply h = Resolves ps"
    using assms(1) unfolding healthyHost_def
    using resolvedE [of "listToolsReply h"] resolvedE [of "listResourcesReply h"]
      resolvedE [of "listPromptsReply h"] by blast
  with assms(2) show ?thesis
    by (simp add: spawnPluginProcess_def loadPluginCapabilities_def Let_def)
qed

lemma invoke_running:
  assumes "map_of (plugins m) nm = Some p" "status p = Running"
    "client p = Some c" "connectedTo c = Some q"
  shows "snd (executeToolInPlugin h nm tn a m) = [Rpc q (CallTool tn a)]"
  using assms by (simp add: executeToolInPlugin_def split: Settled.splits)

lemma stop_signals_process:
  assumes "process p = Some \<lparr>pid = d, killed = False\<rparr>"
  shows "signalledPids (snd (stopRecord nm p)) = [d]" "rpcTargets (snd (stopRecord nm p)) = []"
    "launchedPids (snd (stopRecord nm p)) = []"
  using assms by (simp_all add: stopRecord_def Let_def trace_append split: option.splits)

lemma health_loop_schedule:
  assumes "\<forall>x \<in> set (probedEntries xs). probe (fst x) \<noteq> Hangs"
    and "healthLoop m probe t xs = (ps, sent, es, fin)"
  shows "map fst sent = map fst (probedEntries xs) \<and>
         map snd sent = oneAfterAnother t (map (\<lambda>x. latency (probe (fst x))) (probedEntries xs)) \<and>
         fin = Some (t + sum_list (map (\<lambda>x. latency (probe (fst x))) (probedEntries xs)))"
  using assms
proof (induction xs arbitrary: t ps sent es fin)
  case Nil
  then show ?case by (simp add: probedEntries_def)
next
  case (Cons x xs)
  obtain nm p where x: "x = (nm, p)" by (cases x)
  obtain ps' sent' es' fin' where
    r: "healthLoop m probe (if status p = Running \<and> client p \<noteq> None then t + latency (probe nm) else t) xs
          = (ps', sent', es', fin')"
    by (metis prod_cases4)
  have nh: "\<forall>x \<in> set (probedEntries xs). probe (fst x) \<noteq> Hangs"
    using Cons.prems(1) by (auto simp: probedEntries_def)
  note ih = Cons.IH [OF nh r]
  show ?case
  proof (cases "status p = Running \<and> client p \<noteq> None")
    case True
    then have "probe nm \<noteq> Hangs"
      using Cons.prems(1) by (simp add: probedEntries_def x)
    then show ?thesis
      using True Cons.prems(2) r ih unfolding x
      by (cases "probe nm") (auto simp: probedEntries_def split: prod.splits)
  next
    case False
    then show ?thesis
      using Cons.prems(2) r ih unfolding x
      by (auto simp: probedEntries_def split: prod.splits)
  qed
qed

lemma health_loop_stuck:
  assumes "\<forall>x \<in> set (probedEntries before). probe (fst x) \<noteq> Hangs"
    and "probe nm = Hangs" and "status p = Running" and "client p \<noteq> None"
    and "healthLoop m probe t (before @ (nm, p) # after) = (ps, sent, es, fin)"
  shows "map fst sent = map fst (probedEntries before) @ [nm] \<and> fin = None"
  using assms
proof (induction before arbitrary: t ps sent es fin)
  case Nil
  then show ?case by (auto simp: probedEntries_def)
next
  case (Cons x xs)
  obtain n q where x: "x = (n, q)" by (cases x)
  obtain ps' sent' es' fin' where
    r: "healthLoop m probe (if status q = Running \<and> client q \<noteq> None then t + latency (probe n) else t)
          (xs @ (nm, p) # after) = (ps', sent', es', fin')"
    by (metis prod_cases4)
  have nh: "\<forall>x \<in> set (probedEntries xs). probe (fst x) \<noteq> Hangs"
    using Cons.prems(1) by (auto simp: probedEntries_def)
  note ih = Cons.IH [OF nh Cons.prems(2,3,4) r]
  show ?case
  proof (cases "status q = Running \<and> client q \<noteq> None")
    case True
    then have "probe n \<noteq> Hangs"
      using Cons.prems(1) by (simp add: probedEntries_def x)
    then show ?thesis
      using True Cons.prems(5) r ih unfolding x
      by (cases "probe n") (auto simp: probedEntries_def split: prod.splits)
  next
    case False
    then show ?thesis
      using Cons.prems(5) r ih unfolding x
      by (auto simp: probedEntries_def split: prod.splits)
  qed
qed

lemma path_join_examples:
  "pathJoin ''plugins/echo/'' ''index.ts'' = ''plugins/echo/index.ts''"
  "pathJoin ''dist/core'' ''plugin-wrapper.js'' = ''dist/core/plugin-wrapper.js''"
  "pathJoin ''/a/../..'' ''b'' = ''/b''"
  "pathJoin ''../x'' ''./y/'' = ''../x/y/''"
  "pathJoin '''' '''' = ''.''"
  "pathJoin ''a//b'' ''../c'' = ''a/c''"
  by (simp_all add: pathJoin_def pathNormalize_def Let_def)







lemma catalog_of_single_running:
  "getAllTools (m\<lparr>plugins := [(nm, p\<lparr>status := Running\<rparr>)]\<rparr>) =
     map (\<lambda>tool. tool\<lparr>tool_name := qualifiedName nm (tool_name tool)\<rparr>) (tools p)"
  "getAllResources (m\<lparr>plugins := [(nm, p\<lparr>status := Running\<rparr>)]\<rparr>) = resources p"
  "getAllPrompts (m\<lparr>plugins := [(nm, p\<lparr>status := Running\<rparr>)]\<rparr>) =
     map (\<lambda>prompt. prompt\<lparr>prompt_name := qualifiedName nm (prompt_name prompt)\<rparr>) (prompts p)"
  by (simp_all add: getAllTools_def getAllResources_def getAllPrompts_def)

section \<open>The claims\<close>




text \<open>
  C4. In every state of the manager, an entry is in a catalog listing exactly when it
  stems from a record of the map whose status is \<open>running\<close>: a tool or a prompt of
  that record under the name prefixed with the record's key, a resource of that record
  as stored. Each listing equals the listing of the running records alone, so a record
  in any other state contributes nothing. The failure handler and \<open>stopPlugin\<close> leave
  the lists stored on the record as they were.
\<close>

theorem catalog_entries_belong_to_running_plugins:
  "(t \<in> set (getAllTools m)) =
     (\<exists>nm p tool. (nm, p) \<in> set (plugins m) \<and> status p = Running \<and> tool \<in> set (tools p) \<and>
        t = tool\<lparr>tool_name := qualifiedName nm (tool_name tool)\<rparr>) \<and>
   (r \<in> set (getAllResources m)) =
     (\<exists>nm p. (nm, p) \<in> set (plugins m) \<and> status p = Running \<and> r \<in> set (resources p)) \<and>
   (pr \<in> set (getAllPrompts m)) =
     (\<exists>nm p prompt. (nm, p) \<in> set (plugins m) \<and> status p = Running \<and>
        prompt \<in> set (prompts p) \<and>
        pr = prompt\<lparr>prompt_name := qualifiedName nm (prompt_name prompt)\<rparr>) \<and>
   getAllTools m =
     getAllTools (m\<lparr>plugins := filter (\<lambda>(n, p). status p = Running) (plugins m)\<rparr>) \<and>
   getAllResources m =
     getAllResources (m\<lparr>plugins := filter (\<lambda>(n, p). status p = Running) (plugins m)\<rparr>) \<and>
   getAllPrompts m =
     getAllPrompts (m\<lparr>plugins := filter (\<lambda>(n, p). status p = Running) (plugins m)\<rparr>) \<and>
   (case handlePluginFailure m clock plugin of
      (p', es) \<Rightarrow> tools p' = tools plugin \<and> resources p' = resources plugin \<and>
                  prompts p' = prompts plugin \<and> status p' = Failed) \<and>
   (case stopRecord nm0 plugin of
      (p', es) \<Rightarrow> tools p' = tools plugin \<and> resources p' = resources plugin \<and>
                  prompts p' = prompts plugin \<and> status p' = Stopped)"
proof (intro conjI)
  show "(t \<in> set (getAllTools m)) =
     (\<exists>nm p tool. (nm, p) \<in> set (plugins m) \<and> status p = Running \<and> tool \<in> set (tools p) \<and>
        t = tool\<lparr>tool_name := qualifiedName nm (tool_name tool)\<rparr>)"
    unfolding getAllTools_def by (auto split: if_splits)
  show "(r \<in> set (getAllResources m)) =
     (\<exists>nm p. (nm, p) \<in> set (plugins m) \<and> status p = Running \<and> r \<in> set (resources p))"
    unfolding getAllResources_def by (auto split: if_splits)
  show "(pr \<in> set (getAllPrompts m)) =
     (\<exists>nm p prompt. (nm, p) \<in> set (plugins m) \<and> status p = Running \<and>
        prompt \<in> set (prompts p) \<and>
        pr = prompt\<lparr>prompt_name := qualifiedName nm (prompt_name prompt)\<rparr>)"
    unfolding getAllPrompts_def by (auto split: if_splits)
  show "getAllTools m =
      getAllTools (m\<lparr>plugins := filter (\<lambda>(n, p). status p = Running) (plugins m)\<rparr>)"
    unfolding getAllTools_def
    using concat_running_filter
      [of "\<lambda>n p. map (\<lambda>tool. tool\<lparr>tool_name := qualifiedName n (tool_name tool)\<rparr>) (tools p)"
          "plugins m"]
    by simp
  show "getAllResources m =
      getAllResources (m\<lparr>plugins := filter (\<lambda>(n, p). status p = Running) (plugins m)\<rparr>)"
    unfolding getAllResources_def
    using concat_running_filter [of "\<lambda>n p. resources p" "plugins m"]
    by simp
  show "getAllPrompts m =
      getAllPrompts (m\<lparr>plugins := filter (\<lambda>(n, p). status p = Running) (plugins m)\<rparr>)"
    unfolding getAllPrompts_def
    using concat_running_filter
      [of "\<lambda>n p. map (\<lambda>prompt. prompt\<lparr>prompt_name := qualifiedName n (prompt_name prompt)\<rparr>)
                     (prompts p)" "plugins m"]
    by simp
  show "case handlePluginFailure m clock plugin of
      (p', es) \<Rightarrow> tools p' = tools plugin \<and> resources p' = resources plugin \<and>
                  prompts p' = prompts plugin \<and> status p' = Failed"
    by (simp add: handlePluginFailure_def Let_def)
  show "case stopRecord nm0 plugin of
      (p', es) \<Rightarrow> tools p' = tools plugin \<and> resources p' = resources plugin \<and>
                  prompts p' = prompts plugin \<and> status p' = Stopped"
    by (simp add: stopRecord_def Let_def split: option.splits prod.splits)
qed

theorem catalog_entries_belong_to_running_plugins_witness:
  "getAllTools mixedManager = [pingTool\<lparr>tool_name := ''fast.ping''\<rparr>] \<and>
   getAllResources mixedManager = [readmeResource] \<and>
   getAllPrompts mixedManager = [greetPrompt\<lparr>prompt_name := ''fast.greet''\<rparr>] \<and>
   pingTool\<lparr>tool_name := ''echo.ping''\<rparr> \<notin> set (getAllTools mixedManager) \<and>
   map (status \<circ> snd) (plugins mixedManager) = [Failed, Running] \<and>
   map (tools \<circ> snd) (plugins mixedManager) = [[pingTool], [pingTool]]"
  using catalog_entries_belong_to_running_plugins
    [where m = mixedManager and t = "pingTool\<lparr>tool_name := ''echo.ping''\<rparr>"]
  by (simp add: mixedManager_def emptyManager_def runningEcho_def runningNamed_def
      getAllTools_def getAllResources_def getAllPrompts_def qualifiedName_def pingTool_def
      greetPrompt_def)

text \<open>
  C8. Invoking a tool of a plugin whose record is not \<open>running\<close> fails with the
  not-running error, and invoking a tool under a name that has no record fails with the
  not-found error; in both cases the trace is empty: nothing was written to any worker.
\<close>

theorem invoke_fails_fast_unless_running:
  "(map_of (plugins m) pluginName = None \<longrightarrow>
      executeToolInPlugin h pluginName toolName toolArgs m = (Inl (PluginNotFound pluginName), [])) \<and>
   (\<forall>plugin. map_of (plugins m) pluginName = Some plugin \<and> status plugin \<noteq> Running \<longrightarrow>
      executeToolInPlugin h pluginName toolName toolArgs m = (Inl (PluginNotRunning pluginName), []))"
  by (simp add: executeToolInPlugin_def)

theorem invoke_fails_fast_unless_running_witness:
  "executeToolInPlugin (goodHost 7) ''ghost'' ''ping'' ''{}''
      (emptyManager\<lparr>plugins := [(''echo'', (runningEcho OnFailure 2)\<lparr>status := Stopped\<rparr>)]\<rparr>)
     = (Inl (PluginNotFound ''ghost''), []) \<and>
   executeToolInPlugin (goodHost 7) ''echo'' ''ping'' ''{}''
      (emptyManager\<lparr>plugins := [(''echo'', (runningEcho OnFailure 2)\<lparr>status := Stopped\<rparr>)]\<rparr>)
     = (Inl (PluginNotRunning ''echo''), []) \<and>
   errorMessage (PluginNotRunning ''echo'') = ''Plugin echo is not running'' \<and>
   errorMessage (PluginNotFound ''ghost'') = ''Plugin ghost not found''"
  using invoke_fails_fast_unless_running
    [of "emptyManager\<lparr>plugins := [(''echo'', (runningEcho OnFailure 2)\<lparr>status := Stopped\<rparr>)]\<rparr>"
        "''ghost''" "goodHost 7" "''ping''" "''{}''"]
    invoke_fails_fast_unless_running
    [of "emptyManager\<lparr>plugins := [(''echo'', (runningEcho OnFailure 2)\<lparr>status := Stopped\<rparr>)]\<rparr>"
        "''echo''" "goodHost 7" "''ping''" "''{}''"]
  by (simp add: emptyManager_def runningEcho_def errorMessage_def)

text \<open>
  C2. For a record with policy \<open>on-failure\<close> and \<open>maxRestarts = k\<close> that starts with
  \<open>restartCount = 0\<close>, on hosts where every respawn succeeds, a run of \<open>k + 1\<close>
  consecutive crashes queues exactly \<open>k\<close> restarts and performs exactly \<open>k\<close> respawns.
  After it the record is \<open>failed\<close> with \<open>restartCount = k\<close>, the terminal notification
  has been emitted once, a further run of the failure handler would queue nothing, and
  wherever the record sits in the manager's map the three catalog listings are those of
  the map without it.
\<close>

theorem budget_exhausted_after_k_plus_one_crashes:
  assumes "restartPolicy (config plugin) = Some OnFailure"
    and "maxRestarts (config plugin) = Some k"
    and "restartCount plugin = 0"
    and "\<forall>i. healthyHost (hosts i)"
  shows "case crashes m hosts (Suc k) plugin of
           (pf, es) \<Rightarrow>
             length (restartsQueued es) = k \<and> length (spawnedPids es) = k \<and>
             status pf = Failed \<and> restartCount pf = k \<and>
             failuresEmitted es = [(name (config plugin), ''Max restarts exceeded'')] \<and>
             restartsQueued (snd (handlePluginFailure m clock pf)) = [] \<and>
             getAllTools (m\<lparr>plugins := before @ (nm, pf) # after\<rparr>) =
               getAllTools (m\<lparr>plugins := before @ after\<rparr>) \<and>
             getAllResources (m\<lparr>plugins := before @ (nm, pf) # after\<rparr>) =
               getAllResources (m\<lparr>plugins := before @ after\<rparr>) \<and>
             getAllPrompts (m\<lparr>plugins := before @ (nm, pf) # after\<rparr>) =
               getAllPrompts (m\<lparr>plugins := before @ after\<rparr>)"
proof -
  obtain pf es where c: "crashes m hosts (Suc k) plugin = (pf, es)"
    by (cases "crashes m hosts (Suc k) plugin") auto
  have "case crashes m hosts (Suc k) plugin of
           (pf, es) \<Rightarrow> status pf = Failed \<and> restartCount pf = k \<and> config pf = config plugin \<and>
             length (restartsQueued es) = k \<and> length (spawnedPids es) = k \<and>
             failuresEmitted es = [(name (config plugin), ''Max restarts exceeded'')]"
    using assms by (intro crashes_within_budget) simp_all
  with c have f: "status pf = Failed" "restartCount pf = k" "config pf = config plugin"
    "length (restartsQueued es) = k" "length (spawnedPids es) = k"
    "failuresEmitted es = [(name (config plugin), ''Max restarts exceeded'')]"
    by simp_all
  have "\<not> shouldRestart m pf"
    using f(2,3) assms(1,2) by (simp add: shouldRestart_on_failure)
  then have q: "restartsQueued (snd (handlePluginFailure m clock pf)) = []"
    using failure_terminal(4) [of m pf clock] by (cases "handlePluginFailure m clock pf") simp
  have nr: "status pf \<noteq> Running" using f(1) by simp
  show ?thesis
    using c f q catalog_skips_not_running [OF nr] by (simp del: crashes.simps)
qed

theorem budget_exhausted_after_k_plus_one_crashes_witness:
  "case crashes emptyManager (\<lambda>i. goodHost (200 + 2 * i)) (Suc 2) (runningEcho OnFailure 2) of
     (pf, es) \<Rightarrow>
       length (restartsQueued es) = 2 \<and> length (spawnedPids es) = 2 \<and>
       status pf = Failed \<and> restartCount pf = 2 \<and>
       failuresEmitted es = [(''echo'', ''Max restarts exceeded'')] \<and>
       restartsQueued (snd (handlePluginFailure emptyManager 9 pf)) = [] \<and>
       getAllTools (emptyManager\<lparr>plugins := [(''echo'', pf)]\<rparr>) = [] \<and>
       getAllResources (emptyManager\<lparr>plugins := [(''echo'', pf)]\<rparr>) = [] \<and>
       getAllPrompts (emptyManager\<lparr>plugins := [(''echo'', pf)]\<rparr>) = []"
proof -
  have h: "\<forall>i. healthyHost (goodHost (200 + 2 * i))"
    by (simp add: healthyHost_def goodHost_def)
  have c: "restartPolicy (config (runningEcho OnFailure 2)) = Some OnFailure"
    "maxRestarts (config (runningEcho OnFailure 2)) = Some 2"
    "restartCount (runningEcho OnFailure 2) = 0"
    by (simp_all add: runningEcho_def echoConfig_def)
  have e: "getAllTools (emptyManager\<lparr>plugins := []\<rparr>) = []"
    "getAllResources (emptyManager\<lparr>plugins := []\<rparr>) = []"
    "getAllPrompts (emptyManager\<lparr>plugins := []\<rparr>) = []"
    by (simp_all add: getAllTools_def getAllResources_def getAllPrompts_def)
  have n: "name (config (runningEcho OnFailure 2)) = ''echo''"
    by (simp add: runningEcho_def echoConfig_def)
  show ?thesis
    using budget_exhausted_after_k_plus_one_crashes
      [OF c h, of emptyManager 9 "[]" "''echo''" "[]"] e n
    by (simp del: crashes.simps split: prod.splits)
qed

text \<open>
  C6. Whatever \<open>restartCount\<close> a managed record holds, \<open>restartPlugin\<close> hands
  \<open>spawnPluginProcess\<close> a stopped record whose \<open>restartCount\<close> is 0, and the record it
  leaves in the map is the one that spawn returns: its counter is 0 when the worker came
  up, and at most 1 when the spawn itself ran into the failure handler. No other
  operation on an existing record lowers the counter: the failure handler, the \<open>exit\<close>
  and \<open>error\<close> listeners, a spawn, the restart timer and a health-check round never
  decrease it, a stop and the forced-kill timer leave it as it is, and \<open>startPlugin\<close>
  under a name that is already managed changes nothing.
\<close>

theorem only_manual_restart_resets_counter:
  "(\<forall>plugin. map_of (plugins m) nm = Some plugin \<longrightarrow>
      (\<exists>p0. restartCount p0 = 0 \<and> status p0 = Stopped \<and> config p0 = config plugin \<and>
         (case spawnPluginProcess m h p0 of
            (err, p3, e3) \<Rightarrow>
              (case restartPlugin nm h m of
                 (err', m', es) \<Rightarrow>
                   err' = err \<and> map_of (plugins m') nm = Some p3 \<and> restartCount p3 \<le> 1 \<and>
                   (if status p3 = Running then restartCount p3 = 0 else True))))) \<and>
   (case handlePluginFailure m clock p of (p', es) \<Rightarrow> restartCount p \<le> restartCount p') \<and>
   (case onProcessExit m clock code p of (p', es) \<Rightarrow> restartCount p \<le> restartCount p') \<and>
   (case onProcessError m clock p of (p', es) \<Rightarrow> restartCount p \<le> restartCount p') \<and>
   (case spawnPluginProcess m h p of (err, p', es) \<Rightarrow> restartCount p \<le> restartCount p') \<and>
   (case onRestartTimer m h p of (p', es) \<Rightarrow> restartCount p \<le> restartCount p') \<and>
   (case stopRecord nm p of (p', es) \<Rightarrow> restartCount p' = restartCount p) \<and>
   (case onForceKillTimer p of (p', es) \<Rightarrow> restartCount p' = restartCount p) \<and>
   (case performHealthChecks probe t m of
      (m', sent, es, fin) \<Rightarrow>
        list_all2 (\<lambda>x y. fst y = fst x \<and> restartCount (snd x) \<le> restartCount (snd y))
          (plugins m) (plugins m')) \<and>
   (\<forall>q. map_of (plugins m) (name cfg) = Some q \<longrightarrow>
      startPlugin cfg h m = (Some (AlreadyManaged (name cfg)), m, []))"
proof (intro conjI allI impI)
  fix plugin
  assume g: "map_of (plugins m) nm = Some plugin"
  show "\<exists>p0. restartCount p0 = 0 \<and> status p0 = Stopped \<and> config p0 = config plugin \<and>
         (case spawnPluginProcess m h p0 of
            (err, p3, e3) \<Rightarrow>
              (case restartPlugin nm h m of
                 (err', m', es) \<Rightarrow>
                   err' = err \<and> map_of (plugins m') nm = Some p3 \<and> restartCount p3 \<le> 1 \<and>
                   (if status p3 = Running then restartCount p3 = 0 else True)))"
    by (rule restart_resets [OF g])
next
  show "case handlePluginFailure m clock p of (p', es) \<Rightarrow> restartCount p \<le> restartCount p'"
    using failure_count_mono [of m clock p] by (cases "handlePluginFailure m clock p") simp
  show "case onProcessExit m clock code p of (p', es) \<Rightarrow> restartCount p \<le> restartCount p'"
    using failure_count_mono [of m clock p]
    by (cases "handlePluginFailure m clock p") (simp add: onProcessExit_def failure_ignores_status)
  show "case onProcessError m clock p of (p', es) \<Rightarrow> restartCount p \<le> restartCount p'"
    using failure_count_mono [of m clock p]
    by (cases "handlePluginFailure m clock p") (simp add: onProcessError_def)
  show "case spawnPluginProcess m h p of (err, p', es) \<Rightarrow> restartCount p \<le> restartCount p'"
    using spawn_count_mono [of m h p] by (cases "spawnPluginProcess m h p") simp
  show "case onRestartTimer m h p of (p', es) \<Rightarrow> restartCount p \<le> restartCount p'"
    using spawn_count_mono [of m h p]
    by (cases "spawnPluginProcess m h p") (auto simp: onRestartTimer_def split: option.splits)
  show "case stopRecord nm p of (p', es) \<Rightarrow> restartCount p' = restartCount p"
    using stop_frame [of nm p] by (cases "stopRecord nm p") simp
  show "case onForceKillTimer p of (p', es) \<Rightarrow> restartCount p' = restartCount p"
    by (simp add: onForceKillTimer_def split: option.splits)
  show "case performHealthChecks probe t m of
      (m', sent, es, fin) \<Rightarrow>
        list_all2 (\<lambda>x y. fst y = fst x \<and> restartCount (snd x) \<le> restartCount (snd y))
          (plugins m) (plugins m')"
    using health_loop_counts [of m probe t "plugins m"]
    by (cases "healthLoop m probe t (plugins m)") (simp add: performHealthChecks_def)
next
  fix q
  assume "map_of (plugins m) (name cfg) = Some q"
  then show "startPlugin cfg h m = (Some (AlreadyManaged (name cfg)), m, [])"
    by (simp add: startPlugin_def)
qed

theorem only_manual_restart_resets_counter_witness:
  "(\<exists>p0. restartCount p0 = 0 \<and> status p0 = Stopped \<and>
       config p0 = config ((runningEcho OnFailure 2)\<lparr>restartCount := 2, status := Failed\<rparr>) \<and>
         (case spawnPluginProcess (emptyManager\<lparr>plugins :=
                   [(''echo'', (runningEcho OnFailure 2)\<lparr>restartCount := 2, status := Failed\<rparr>)]\<rparr>)
                 (goodHost 300) p0 of
            (err, p3, e3) \<Rightarrow>
              (case restartPlugin ''echo'' (goodHost 300)
                      (emptyManager\<lparr>plugins :=
                   [(''echo'', (runningEcho OnFailure 2)\<lparr>restartCount := 2, status := Failed\<rparr>)]\<rparr>) of
                 (err', m', es) \<Rightarrow>
                   err' = err \<and> map_of (plugins m') ''echo'' = Some p3 \<and> restartCount p3 \<le> 1 \<and>
                   (if status p3 = Running then restartCount p3 = 0 else True)))) \<and>
   map (\<lambda>x. (fst x, status (snd x), restartCount (snd x)))
     (plugins (fst (snd (restartPlugin ''echo'' (goodHost 300)
        (emptyManager\<lparr>plugins :=
           [(''echo'', (runningEcho OnFailure 2)\<lparr>restartCount := 2, status := Failed\<rparr>)]\<rparr>)))))
     = [(''echo'', Running, 0)]"
  using only_manual_restart_resets_counter
    [of "emptyManager\<lparr>plugins :=
           [(''echo'', (runningEcho OnFailure 2)\<lparr>restartCount := 2, status := Failed\<rparr>)]\<rparr>"
        "''echo''" "goodHost 300"]
  by (simp add: emptyManager_def restartPlugin_def stopRecord_def spawnPluginProcess_def
      loadPluginCapabilities_def goodHost_def runningEcho_def Let_def)

text \<open>
  C3, as stated, fails: a batch that names \<open>ping\<close> twice is accepted. The plugin is
  \<open>running\<close>, both entries are stored, and both appear in the catalog.
\<close>

theorem duplicate_batch_is_registered:
  "fst (startPlugin (echoConfig OnFailure 2) duplicateHost emptyManager) = None \<and>
   map fst (plugins (fst (snd (startPlugin (echoConfig OnFailure 2) duplicateHost emptyManager))))
     = [''echo''] \<and>
   map (status \<circ> snd)
     (plugins (fst (snd (startPlugin (echoConfig OnFailure 2) duplicateHost emptyManager))))
     = [Running] \<and>
   map (map tool_name \<circ> tools \<circ> snd)
     (plugins (fst (snd (startPlugin (echoConfig OnFailure 2) duplicateHost emptyManager))))
     = [[''ping'', ''ping'']] \<and>
   map tool_name (getAllTools (fst (snd (startPlugin (echoConfig OnFailure 2) duplicateHost emptyManager))))
     = [''echo.ping'', ''echo.ping'']"
  by (simp add: startPlugin_def emptyManager_def echoConfig_def duplicateHost_def goodHost_def
      newPlugin_def spawnPluginProcess_def loadPluginCapabilities_def Let_def getAllTools_def
      qualifiedName_def pingTool_def)

text \<open>
  C3, amended. A capability-load batch in which two entries have the same local name is
  not rejected: \<open>loadPluginCapabilities\<close> never compares names. On a connected client
  it reports an error exactly when one of the three list requests is rejected, whatever
  the entries are; when it reports none, the record holds each list exactly as
  received, in order and with duplicates kept, and the load has not touched the
  status. Once such a record is \<open>running\<close>, the catalog lists every stored tool, resource
  and prompt of it, duplicates included.
\<close>

theorem capability_load_never_compares_names:
  assumes "client plugin = Some c" and "connectedTo c = Some q"
  shows "case loadPluginCapabilities h plugin of
           (err, p', es) \<Rightarrow>
             status p' = status plugin \<and>
             (err = None) =
               (resolved (listToolsReply h) \<and> resolved (listResourcesReply h) \<and>
                resolved (listPromptsReply h)) \<and>
             (err = None \<longrightarrow>
                tools p' = received (listToolsReply h) \<and>
                resources p' = received (listResourcesReply h) \<and>
                prompts p' = received (listPromptsReply h) \<and>
                getAllTools (m\<lparr>plugins := [(nm, p'\<lparr>status := Running\<rparr>)]\<rparr>) =
                  map (\<lambda>tool. tool\<lparr>tool_name := qualifiedName nm (tool_name tool)\<rparr>)
                    (received (listToolsReply h)) \<and>
                getAllResources (m\<lparr>plugins := [(nm, p'\<lparr>status := Running\<rparr>)]\<rparr>) =
                  received (listResourcesReply h) \<and>
                getAllPrompts (m\<lparr>plugins := [(nm, p'\<lparr>status := Running\<rparr>)]\<rparr>) =
                  map (\<lambda>prompt. prompt\<lparr>prompt_name := qualifiedName nm (prompt_name prompt)\<rparr>)
                    (received (listPromptsReply h)))"
proof -
  obtain err p' es where l: "loadPluginCapabilities h plugin = (err, p', es)"
    by (cases "loadPluginCapabilities h plugin") auto
  have s: "status p' = status plugin"
    using load_frame [OF l] by simp
  have e: "(err = None) =
      (resolved (listToolsReply h) \<and> resolved (listResourcesReply h) \<and>
       resolved (listPromptsReply h))"
    using l assms
    by (cases "listToolsReply h"; cases "listResourcesReply h"; cases "listPromptsReply h")
       (auto simp: loadPluginCapabilities_def Let_def)
  have r: "err = None \<Longrightarrow>
      tools p' = received (listToolsReply h) \<and> resources p' = received (listResourcesReply h) \<and>
      prompts p' = received (listPromptsReply h)"
    using l assms
    by (cases "listToolsReply h"; cases "listResourcesReply h"; cases "listPromptsReply h")
       (auto simp: loadPluginCapabilities_def Let_def received_def split: option.splits)
  have c: "err = None \<longrightarrow>
                tools p' = received (listToolsReply h) \<and>
                resources p' = received (listResourcesReply h) \<and>
                prompts p' = received (listPromptsReply h) \<and>
                getAllTools (m\<lparr>plugins := [(nm, p'\<lparr>status := Running\<rparr>)]\<rparr>) =
                  map (\<lambda>tool. tool\<lparr>tool_name := qualifiedName nm (tool_name tool)\<rparr>)
                    (received (listToolsReply h)) \<and>
                getAllResources (m\<lparr>plugins := [(nm, p'\<lparr>status := Running\<rparr>)]\<rparr>) =
                  received (listResourcesReply h) \<and>
                getAllPrompts (m\<lparr>plugins := [(nm, p'\<lparr>status := Running\<rparr>)]\<rparr>) =
                  map (\<lambda>prompt. prompt\<lparr>prompt_name := qualifiedName nm (prompt_name prompt)\<rparr>)
                    (received (listPromptsReply h))"
    using r by (simp add: catalog_of_single_running)
  show ?thesis
    unfolding l prod.case
    apply (intro conjI)
      apply (rule s)
     apply (rule e)
    apply (rule c)
    done
qed

theorem capability_load_never_compares_names_witness:
  "case loadPluginCapabilities duplicatesEverywhereHost (runningEcho OnFailure 2) of
     (err, p', es) \<Rightarrow>
       err = None \<and> status p' = Running \<and>
       tools p' = [pingTool, pingTool] \<and>
       resources p' = [readmeResource, readmeResource] \<and>
       prompts p' = [greetPrompt, greetPrompt] \<and>
       map tool_name (getAllTools (emptyManager\<lparr>plugins := [(''echo'', p'\<lparr>status := Running\<rparr>)]\<rparr>))
         = [''echo.ping'', ''echo.ping''] \<and>
       getAllResources (emptyManager\<lparr>plugins := [(''echo'', p'\<lparr>status := Running\<rparr>)]\<rparr>)
         = [readmeResource, readmeResource] \<and>
       map prompt_name
         (getAllPrompts (emptyManager\<lparr>plugins := [(''echo'', p'\<lparr>status := Running\<rparr>)]\<rparr>))
         = [''echo.greet'', ''echo.greet'']"
proof -
  have c: "client (runningEcho OnFailure 2) =
      Some \<lparr>clientInfo = ''plugin-manager-echo'', connectedTo = Some 101\<rparr>"
    by (simp add: runningEcho_def)
  have q: "connectedTo \<lparr>clientInfo = ''plugin-manager-echo'', connectedTo = Some 101\<rparr> = Some 101"
    by simp
  have r: "resolved (listToolsReply duplicatesEverywhereHost)"
    "resolved (listResourcesReply duplicatesEverywhereHost)"
    "resolved (listPromptsReply duplicatesEverywhereHost)"
    "received (listToolsReply duplicatesEverywhereHost) = [pingTool, pingTool]"
    "received (listResourcesReply duplicatesEverywhereHost) = [readmeResource, readmeResource]"
    "received (listPromptsReply duplicatesEverywhereHost) = [greetPrompt, greetPrompt]"
    by (simp_all add: duplicatesEverywhereHost_def goodHost_def received_def)
  have n: "qualifiedName ''echo'' (tool_name pingTool) = ''echo.ping''"
    "qualifiedName ''echo'' (prompt_name greetPrompt) = ''echo.greet''"
    "status (runningEcho OnFailure 2) = Running"
    by (simp_all add: qualifiedName_def pingTool_def greetPrompt_def runningEcho_def)
  obtain err p' es where
    l: "loadPluginCapabilities duplicatesEverywhereHost (runningEcho OnFailure 2) = (err, p', es)"
    by (cases "loadPluginCapabilities duplicatesEverywhereHost (runningEcho OnFailure 2)") auto
  note t = capability_load_never_compares_names
    [OF c q, where h = duplicatesEverywhereHost and m = emptyManager and nm = "''echo''",
     unfolded l prod.case]
  from t r(1-3) have e: "err = None" by simp
  from t e have g: "status p' = status (runningEcho OnFailure 2)"
    "tools p' = received (listToolsReply duplicatesEverywhereHost)"
    "resources p' = received (listResourcesReply duplicatesEverywhereHost)"
    "prompts p' = received (listPromptsReply duplicatesEverywhereHost)"
    "getAllTools (emptyManager\<lparr>plugins := [(''echo'', p'\<lparr>status := Running\<rparr>)]\<rparr>) =
       map (\<lambda>tool. tool\<lparr>tool_name := qualifiedName ''echo'' (tool_name tool)\<rparr>)
         (received (listToolsReply duplicatesEverywhereHost))"
    "getAllResources (emptyManager\<lparr>plugins := [(''echo'', p'\<lparr>status := Running\<rparr>)]\<rparr>) =
       received (listResourcesReply duplicatesEverywhereHost)"
    "getAllPrompts (emptyManager\<lparr>plugins := [(''echo'', p'\<lparr>status := Running\<rparr>)]\<rparr>) =
       map (\<lambda>prompt. prompt\<lparr>prompt_name := qualifiedName ''echo'' (prompt_name prompt)\<rparr>)
         (received (listPromptsReply duplicatesEverywhereHost))"
    by blast+
  show ?thesis
    unfolding l prod.case
    using e g r(4-6) n by simp
qed

text \<open>
  C5, at a concrete record. \<open>stopPlugin\<close> on the running \<open>echo\<close> worker signals child
  100 and leaves the record \<open>stopped\<close>. The exit that the signal causes (exit code
  \<open>null\<close>) then runs the failure handler: the record is \<open>failed\<close>, its counter is 1,
  a restart is queued, and the restart timer brings the worker back to \<open>running\<close>. An
  exit with code 0 under the policy \<open>on-failure\<close> does the same.
\<close>

theorem stop_then_exit_restarts_the_plugin:
  "status (stoppedEcho Always) = Stopped \<and>
   process (stoppedEcho Always) = Some \<lparr>pid = 100, killed = True\<rparr> \<and>
   signalledPids (snd (stopRecord ''echo'' (runningEcho Always 3))) = [100] \<and>
   status (fst (onProcessExit emptyManager 5 None (stoppedEcho Always))) = Failed \<and>
   restartCount (fst (onProcessExit emptyManager 5 None (stoppedEcho Always))) = 1 \<and>
   restartsQueued (snd (onProcessExit emptyManager 5 None (stoppedEcho Always))) = [(1000, ''echo'')] \<and>
   status (fst (onRestartTimer emptyManager (goodHost 102)
             (fst (onProcessExit emptyManager 5 None (stoppedEcho Always))))) = Running \<and>
   status (fst (onProcessExit emptyManager 5 (Some 0) (stoppedEcho OnFailure))) = Failed \<and>
   restartsQueued (snd (onProcessExit emptyManager 5 (Some 0) (stoppedEcho OnFailure))) = [(1000, ''echo'')]"
  by (simp add: stoppedEcho_def stopRecord_def runningEcho_def echoConfig_def onProcessExit_def
      handlePluginFailure_def shouldRestart_def restartBudget_def emptyManager_def Let_def
      onRestartTimer_def spawnPluginProcess_def loadPluginCapabilities_def goodHost_def)

text \<open>
  C7, at a concrete manager. The catalog of a manager whose only plugin \<open>echo\<close> is
  running lists its tool as \<open>echo.ping\<close> and its prompt as \<open>echo.greet\<close>, but its
  resource unchanged, under the name \<open>readme\<close> and the uri it was advertised with.
\<close>

theorem resources_are_listed_without_owner_prefix:
  "getAllResources (emptyManager\<lparr>plugins := [(''echo'', runningEcho OnFailure 2)]\<rparr>) = [readmeResource] \<and>
   map resource_name (getAllResources (emptyManager\<lparr>plugins := [(''echo'', runningEcho OnFailure 2)]\<rparr>))
     = [''readme''] \<and>
   map uri (getAllResources (emptyManager\<lparr>plugins := [(''echo'', runningEcho OnFailure 2)]\<rparr>))
     = [''file:///readme''] \<and>
   map tool_name (getAllTools (emptyManager\<lparr>plugins := [(''echo'', runningEcho OnFailure 2)]\<rparr>))
     = [''echo.ping''] \<and>
   map prompt_name (getAllPrompts (emptyManager\<lparr>plugins := [(''echo'', runningEcho OnFailure 2)]\<rparr>))
     = [''echo.greet'']"
  by (simp add: getAllResources_def getAllTools_def getAllPrompts_def emptyManager_def
      runningEcho_def readmeResource_def pingTool_def greetPrompt_def qualifiedName_def)

text \<open>
  C10. On a host where everything succeeds, \<open>startPlugin\<close> for a name not yet managed
  launches two children from the same command line: the one \<open>spawn\<close> returns, and the
  one the client's transport starts for itself; they have different pids. The
  listeners are on the first only. The handshake, the capability queries and every
  tool invocation are written to the second only. The \<open>SIGTERM\<close> of \<open>stopPlugin\<close> and
  the \<open>SIGKILL\<close> of its timer go to the first only, which is never sent a request.
  That the transport starts the command line it was built from is the contract of the
  SDK's \<open>StdioClientTransport\<close>; the rest is \<open>spawnPluginProcess\<close>, \<open>stopPlugin\<close> and
  \<open>executeToolInPlugin\<close> as written.
\<close>

theorem start_launches_two_children:
  assumes "healthyHost h" and "map_of (plugins m) (name cfg) = None"
  shows "case startPlugin cfg h m of
     (err, m1, es) \<Rightarrow>
       err = None \<and>
       take 3 es =
         [OsSpawn (nextPid h) ''node''
            [pathJoin (dirname h) ''plugin-wrapper.js'', pathJoin (path cfg) ''index.ts''],
          Monitor (nextPid h),
          TransportStart (nextPid h + 1) ''node''
            [pathJoin (dirname h) ''plugin-wrapper.js'', pathJoin (path cfg) ''index.ts'']] \<and>
       launchedPids es = [nextPid h, nextPid h + 1] \<and>
       nextPid h \<noteq> nextPid h + 1 \<and>
       monitoredPids es = [nextPid h] \<and>
       set (rpcTargets es) = {nextPid h + 1} \<and>
       signalledPids es = [] \<and>
       (\<exists>p. map_of (plugins m1) (name cfg) = Some p \<and> status p = Running \<and>
          process p = Some \<lparr>pid = nextPid h, killed = False\<rparr> \<and>
          rpcTargets (snd (executeToolInPlugin h2 (name cfg) toolName toolArgs m1)) = [nextPid h + 1] \<and>
          signalledPids (snd (snd (stopPlugin (name cfg) m1))) = [nextPid h] \<and>
          rpcTargets (snd (snd (stopPlugin (name cfg) m1))) = [] \<and>
          signalledPids (snd (onForceKillTimer p)) = [nextPid h] \<and>
          rpcTargets (snd (onForceKillTimer p)) = [])"
proof -
  let ?m1 = "m\<lparr>plugins := AList.update (name cfg) (newPlugin cfg) (plugins m)\<rparr>"
  obtain err p es where sp: "spawnPluginProcess ?m1 h (newPlugin cfg) = (err, p, es)"
    by (cases "spawnPluginProcess ?m1 h (newPlugin cfg)") auto
  let ?m2 = "?m1\<lparr>plugins := AList.update (name cfg) p (plugins ?m1)\<rparr>"
  have st: "startPlugin cfg h m = (err, ?m2, es)"
    using assms(2) sp by (simp add: startPlugin_def Let_def)
  note sh = spawn_healthy [OF assms(1) sp]
  have tr: "es = [OsSpawn (nextPid h) ''node''
                 [pathJoin (dirname h) ''plugin-wrapper.js'', pathJoin (path cfg) ''index.ts''],
               Monitor (nextPid h),
               TransportStart (nextPid h + 1) ''node''
                 [pathJoin (dirname h) ''plugin-wrapper.js'', pathJoin (path cfg) ''index.ts''],
               Rpc (nextPid h + 1) Initialize, Rpc (nextPid h + 1) ListTools,
               Rpc (nextPid h + 1) ListResources, Rpc (nextPid h + 1) ListPrompts,
               Emit (PluginStarted (name cfg))]"
    using spawn_healthy_trace [OF assms(1) sp] by (simp add: newPlugin_def)
  have g: "map_of (plugins ?m2) (name cfg) = Some p"
    by (simp add: update_conv')
  have x: "rpcTargets (snd (executeToolInPlugin h2 (name cfg) toolName toolArgs ?m2)) = [nextPid h + 1]"
    using invoke_running [OF g sh(2) sh(6)] by simp
  have sr: "snd (snd (stopPlugin (name cfg) ?m2)) = snd (stopRecord (name cfg) p)"
    using g by (simp add: stopPlugin_def split_def Let_def)
  have k: "signalledPids (snd (onForceKillTimer p)) = [nextPid h]"
    "rpcTargets (snd (onForceKillTimer p)) = []"
    using sh(5) by (simp_all add: onForceKillTimer_def)
  have ex: "map_of (plugins ?m2) (name cfg) = Some p \<and> status p = Running \<and>
          process p = Some \<lparr>pid = nextPid h, killed = False\<rparr> \<and>
          rpcTargets (snd (executeToolInPlugin h2 (name cfg) toolName toolArgs ?m2)) = [nextPid h + 1] \<and>
          signalledPids (snd (snd (stopPlugin (name cfg) ?m2))) = [nextPid h] \<and>
          rpcTargets (snd (snd (stopPlugin (name cfg) ?m2))) = [] \<and>
          signalledPids (snd (onForceKillTimer p)) = [nextPid h] \<and>
          rpcTargets (snd (onForceKillTimer p)) = []"
    using g sh(2) sh(5) x k stop_signals_process [OF sh(5), of "name cfg"] unfolding sr
    by (intro conjI) simp_all
  have top: "err = None" "launchedPids es = [nextPid h, nextPid h + 1]"
    "monitoredPids es = [nextPid h]" "set (rpcTargets es) = {nextPid h + 1}" "signalledPids es = []"
    using sh by simp_all
  have t3: "take 3 es =
         [OsSpawn (nextPid h) ''node''
            [pathJoin (dirname h) ''plugin-wrapper.js'', pathJoin (path cfg) ''index.ts''],
          Monitor (nextPid h),
          TransportStart (nextPid h + 1) ''node''
            [pathJoin (dirname h) ''plugin-wrapper.js'', pathJoin (path cfg) ''index.ts'']]"
    unfolding tr by simp
  show ?thesis
    unfolding st prod.case
    apply (intro conjI)
           apply (rule top(1))
          apply (rule t3)
         apply (rule top(2))
        apply simp
       apply (rule top(3))
      apply (rule top(4))
     apply (rule top(5))
    apply (rule exI [of _ p])
    apply (rule ex)
    done
qed

theorem start_launches_two_children_witness:
  "case startPlugin (echoConfig OnFailure 2) (goodHost 500) emptyManager of
     (err, m1, es) \<Rightarrow>
       err = None \<and> launchedPids es = [500, 501] \<and> monitoredPids es = [500] \<and>
       set (rpcTargets es) = {501} \<and>
       rpcTargets (snd (executeToolInPlugin (goodHost 0) ''echo'' ''ping'' ''{}'' m1)) = [501] \<and>
       signalledPids (snd (snd (stopPlugin ''echo'' m1))) = [500] \<and>
       rpcTargets (snd (snd (stopPlugin ''echo'' m1))) = []"
proof -
  have h: "healthyHost (goodHost 500)"
    by (simp add: healthyHost_def goodHost_def)
  have n: "map_of (plugins emptyManager) (name (echoConfig OnFailure 2)) = None"
    by (simp add: emptyManager_def)
  have e: "name (echoConfig OnFailure 2) = ''echo''" "nextPid (goodHost 500) = 500"
    by (simp_all add: echoConfig_def goodHost_def)
  show ?thesis
    using start_launches_two_children
      [OF h n, where ?h2.0 = "goodHost 0" and toolName = "''ping''" and toolArgs = "''{}''"] e
    by (auto split: prod.splits)
qed

text \<open>
  C9, as stated, fails. With two running workers, the probe of the second is sent at 10
  when the first answers after 10, at 5000 when the first answers after 5000, and not
  at all when the probe of the first never settles: the round is then left unfinished.
\<close>

theorem slow_probe_delays_the_next:
  "fst (snd (performHealthChecks promptProbes 0 twoWorkers)) = [(''slow'', 0), (''fast'', 10)] \<and>
   fst (snd (performHealthChecks slowProbes 0 twoWorkers)) = [(''slow'', 0), (''fast'', 5000)] \<and>
   fst (snd (performHealthChecks stuckProbes 0 twoWorkers)) = [(''slow'', 0)] \<and>
   snd (snd (snd (performHealthChecks stuckProbes 0 twoWorkers))) = None"
  by (simp add: performHealthChecks_def twoWorkers_def emptyManager_def runningNamed_def
      runningEcho_def promptProbes_def slowProbes_def stuckProbes_def)

text \<open>
  C9, amended. Within one round the probes are sent one after another, in the order of
  the map, to the records that are \<open>running\<close> with a client. When no probe of the round
  hangs, every such record is probed, whether earlier probes answered or failed, and
  each probe is sent at the round's start plus the latencies of all the probes before
  it; the round ends after the sum of the latencies. When a probe never settles, it is
  the last one sent: no later record is probed and the round does not end.
\<close>

theorem health_probes_run_one_after_another:
  "((\<forall>x \<in> set (probedEntries (plugins m)). probe (fst x) \<noteq> Hangs) \<longrightarrow>
      (case performHealthChecks probe t m of
         (m', sent, es, fin) \<Rightarrow>
           map fst sent = map fst (probedEntries (plugins m)) \<and>
           map snd sent =
             oneAfterAnother t (map (\<lambda>x. latency (probe (fst x))) (probedEntries (plugins m))) \<and>
           fin = Some (t + sum_list (map (\<lambda>x. latency (probe (fst x))) (probedEntries (plugins m)))))) \<and>
   (\<forall>before nm p after.
      plugins m = before @ (nm, p) # after \<and>
      (\<forall>x \<in> set (probedEntries before). probe (fst x) \<noteq> Hangs) \<and>
      probe nm = Hangs \<and> status p = Running \<and> client p \<noteq> None \<longrightarrow>
      (case performHealthChecks probe t m of
         (m', sent, es, fin) \<Rightarrow>
           map fst sent = map fst (probedEntries before) @ [nm] \<and> fin = None))"
proof (intro conjI allI impI)
  assume a: "\<forall>x \<in> set (probedEntries (plugins m)). probe (fst x) \<noteq> Hangs"
  obtain ps sent es fin where r: "healthLoop m probe t (plugins m) = (ps, sent, es, fin)"
    by (metis prod_cases4)
  from health_loop_schedule [OF a r] r
  show "case performHealthChecks probe t m of
         (m', sent, es, fin) \<Rightarrow>
           map fst sent = map fst (probedEntries (plugins m)) \<and>
           map snd sent =
             oneAfterAnother t (map (\<lambda>x. latency (probe (fst x))) (probedEntries (plugins m))) \<and>
           fin = Some (t + sum_list (map (\<lambda>x. latency (probe (fst x))) (probedEntries (plugins m))))"
    by (simp add: performHealthChecks_def)
next
  fix before nm p after
  assume b: "plugins m = before @ (nm, p) # after \<and>
      (\<forall>x \<in> set (probedEntries before). probe (fst x) \<noteq> Hangs) \<and>
      probe nm = Hangs \<and> status p = Running \<and> client p \<noteq> None"
  obtain ps sent es fin where
    r: "healthLoop m probe t (before @ (nm, p) # after) = (ps, sent, es, fin)"
    by (metis prod_cases4)
  from b have b1: "\<forall>x \<in> set (probedEntries before). probe (fst x) \<noteq> Hangs"
    and b2: "probe nm = Hangs" and b3: "status p = Running" and b4: "client p \<noteq> None"
    and b5: "plugins m = before @ (nm, p) # after"
    by simp_all
  from health_loop_stuck [OF b1 b2 b3 b4 r] r b5
  show "case performHealthChecks probe t m of
         (m', sent, es, fin) \<Rightarrow>
           map fst sent = map fst (probedEntries before) @ [nm] \<and> fin = None"
    by (simp add: performHealthChecks_def)
qed

theorem health_probes_run_one_after_another_witness:
  "fst (snd (performHealthChecks failingProbes 0 twoWorkers)) = [(''slow'', 0), (''fast'', 10)] \<and>
   snd (snd (snd (performHealthChecks failingProbes 0 twoWorkers))) = Some 20 \<and>
   map (status \<circ> snd) (plugins (fst (performHealthChecks failingProbes 0 twoWorkers)))
     = [Failed, Running] \<and>
   map fst (fst (snd (performHealthChecks stuckProbes 7 twoWorkers))) = [''slow''] \<and>
   snd (snd (snd (performHealthChecks stuckProbes 7 twoWorkers))) = None"
proof -
  have pe: "probedEntries (plugins twoWorkers) =
      [(''slow'', runningNamed ''slow''), (''fast'', runningNamed ''fast'')]"
    "plugins twoWorkers = [(''slow'', runningNamed ''slow''), (''fast'', runningNamed ''fast'')]"
    by (simp_all add: probedEntries_def twoWorkers_def emptyManager_def runningNamed_def
        runningEcho_def)
  have a: "\<forall>x \<in> set (probedEntries (plugins twoWorkers)). failingProbes (fst x) \<noteq> Hangs"
    by (simp add: pe(1) failingProbes_def)
  have first: "case performHealthChecks failingProbes 0 twoWorkers of
         (m', sent, es, fin) \<Rightarrow>
           map fst sent = map fst (probedEntries (plugins twoWorkers)) \<and>
           map snd sent =
             oneAfterAnother 0
               (map (\<lambda>x. latency (failingProbes (fst x))) (probedEntries (plugins twoWorkers))) \<and>
           fin = Some (0 + sum_list (map (\<lambda>x. latency (failingProbes (fst x)))
                                       (probedEntries (plugins twoWorkers))))"
    by (rule health_probes_run_one_after_another
          [of twoWorkers failingProbes 0, THEN conjunct1, THEN mp, OF a])
  have b: "plugins twoWorkers = [] @ (''slow'', runningNamed ''slow'') # [(''fast'', runningNamed ''fast'')] \<and>
      (\<forall>x \<in> set (probedEntries []). stuckProbes (fst x) \<noteq> Hangs) \<and>
      stuckProbes ''slow'' = Hangs \<and> status (runningNamed ''slow'') = Running \<and>
      client (runningNamed ''slow'') \<noteq> None"
    by (simp add: pe probedEntries_def stuckProbes_def runningNamed_def runningEcho_def)
  have second: "case performHealthChecks stuckProbes 7 twoWorkers of
         (m', sent, es, fin) \<Rightarrow>
           map fst sent = map fst (probedEntries []) @ [''slow''] \<and> fin = None"
    by (rule health_probes_run_one_after_another
          [of twoWorkers stuckProbes 7, THEN conjunct2, THEN spec, THEN spec, THEN spec,
           THEN spec, THEN mp, OF b])
  have st: "map (status \<circ> snd) (plugins (fst (performHealthChecks failingProbes 0 twoWorkers)))
     = [Failed, Running]"
    by (simp add: performHealthChecks_def twoWorkers_def emptyManager_def runningNamed_def
        runningEcho_def failingProbes_def handlePluginFailure_def Let_def split_def)
  have ev: "fst (snd (performHealthChecks failingProbes 0 twoWorkers)) = [(''slow'', 0), (''fast'', 10)]"
    by (simp add: performHealthChecks_def twoWorkers_def emptyManager_def runningNamed_def
        runningEcho_def failingProbes_def handlePluginFailure_def Let_def split_def)
  have f2: "snd (snd (snd (performHealthChecks failingProbes 0 twoWorkers))) = Some 20"
    using first by (simp add: pe(1) failingProbes_def split: prod.splits)
  have s2: "map fst (fst (snd (performHealthChecks stuckProbes 7 twoWorkers))) = [''slow''] \<and>
      snd (snd (snd (performHealthChecks stuckProbes 7 twoWorkers))) = None"
    using second by (simp add: probedEntries_def split: prod.splits)
  show ?thesis
    using ev f2 st s2 by simp
qed

end
